theory Spec2Isabelle
  imports Complex_Main "HOL-Library.Sublist" "HOL-Library.Log_Nat"
begin

section \<open>Data model\<close>

text \<open>
  Modelled from the spec: the types module, which declares \<open>Scan\<close>, \<open>ValidationHistory\<close>,
  the profile snapshots and the error type \<open>SupabaseApiError\<close> with its guard
  \<open>isSupabaseApiError\<close>, is not among the sources.  The records carry the fields the
  specification lists for the two record sets, under the names the cache component and
  the pages use for them.  Nullable fields are options, identifiers of scans and
  validation rows are JavaScript numbers (integers here; the fields \<open>id\<close> are called
  \<open>s_id\<close> and \<open>v_id\<close>), identifiers of users are strings, and timestamps are the ISO
  strings the code passes around.
\<close>

record Profile =
  profile_id :: string
  username :: "string option"
  full_name :: "string option"
  email :: "string option"
  profile_picture :: "string option"

record Scan =
  s_id :: int
  farmer_id :: "string option"
  scan_type :: string
  ai_prediction :: "string option"
  confidence :: "real option"
  status :: string
  expert_validation :: "string option"
  expert_comment :: "string option"
  created_at :: string
  updated_at :: string
  farmer_profile :: "Profile option"

record ValidationHistory =
  v_id :: int
  scan_id :: "int option"
  expert_id :: "string option"
  v_ai_prediction :: "string option"
  v_expert_validation :: "string option"
  v_status :: string
  v_expert_comment :: "string option"
  validated_at :: string
  expert_profile :: "Profile option"
  scan :: "Scan option"

record User =
  user_id :: string

text \<open>JavaScript truthiness of the values the handlers test.\<close>

fun truthy_num :: "int option \<Rightarrow> bool" where
  "truthy_num None = False"
| "truthy_num (Some n) = (n \<noteq> 0)"

fun truthy_str :: "string option \<Rightarrow> bool" where
  "truthy_str None = False"
| "truthy_str (Some s) = (s \<noteq> [])"

text \<open>\<open>x || null\<close> on a nullable string.\<close>

definition or_null :: "string option \<Rightarrow> string option" where
  "or_null x = (if truthy_str x then x else None)"

text \<open>\<open>Array.prototype.findIndex\<close>; \<open>None\<close> stands for the result \<open>-1\<close>.\<close>

fun findIndex :: "('a \<Rightarrow> bool) \<Rightarrow> 'a list \<Rightarrow> nat option" where
  "findIndex P [] = None"
| "findIndex P (x # xs) = (if P x then Some 0 else map_option Suc (findIndex P xs))"

section \<open>The cache component (DataContext)\<close>

text \<open>
  The state of \<open>DataProvider\<close>: the five \<open>useState\<close> cells and the refs.  The ref
  \<open>fetchDataRef\<close> holds either null or a \<open>fetchData\<close> closure; the only variable such a
  closure captures is \<open>isReady\<close>, so the ref is modelled by that captured flag.  A channel
  is identified by its name.
\<close>

record DataState =
  scans :: "Scan list"
  validationHistory :: "ValidationHistory list"
  totalUsers :: int
  loading :: bool
  error :: "string option"
  initialFetched :: bool
  isFetching :: bool
  fetchDataRef :: "bool option"
  channelRef :: "string option"
  subscriptionActive :: bool


subsection \<open>Change-event handlers\<close>

text \<open>
  Each handler is given the identifier carried by the event payload (absent when the
  payload has none) and, for the handlers that re-read the row, the result of
  \<open>fetchScanWithProfile\<close> / \<open>fetchValidationWithRelations\<close> (\<open>None\<close> when that read
  fails).  The state updates of one handler are applied together.
\<close>

definition scans_INSERT :: "int option \<Rightarrow> Scan option \<Rightarrow> DataState \<Rightarrow> DataState" where
  "scans_INSERT newId fetched st =
     (if \<not> initialFetched st then st
      else if \<not> truthy_num newId then st
      else case fetched of
        None \<Rightarrow> st
      | Some fullScan \<Rightarrow>
          st\<lparr>scans :=
            (if list_ex (\<lambda>s. s_id s = s_id fullScan) (scans st) then scans st
             else fullScan # scans st)\<rparr>)"

definition scans_UPDATE :: "int option \<Rightarrow> Scan option \<Rightarrow> DataState \<Rightarrow> DataState" where
  "scans_UPDATE updId fetched st =
     (if \<not> initialFetched st then st
      else if \<not> truthy_num updId then st
      else case fetched of
        None \<Rightarrow> st
      | Some fullScan \<Rightarrow>
          st\<lparr>scans :=
            (case findIndex (\<lambda>s. s_id s = s_id fullScan) (scans st) of
               None \<Rightarrow> fullScan # scans st
             | Some i \<Rightarrow> (scans st)[i := fullScan])\<rparr>)"

definition scans_DELETE :: "int option \<Rightarrow> DataState \<Rightarrow> DataState" where
  "scans_DELETE oldId st =
     (if \<not> initialFetched st then st
      else if truthy_num oldId
        then st\<lparr>scans := filter (\<lambda>s. Some (s_id s) \<noteq> oldId) (scans st)\<rparr>
        else st)"

text \<open>
  The patch both validation handlers apply to the cached scan of the row: the first scan
  with the row's \<open>scan_id\<close> gets the row's status (anything but \<open>Validated\<close> becomes
  \<open>Corrected\<close>) and the row's expert validation.
\<close>

definition patch_scan :: "ValidationHistory \<Rightarrow> Scan list \<Rightarrow> Scan list" where
  "patch_scan fullValidation prev =
     (case findIndex (\<lambda>s. Some (s_id s) = scan_id fullValidation) prev of
        Some i \<Rightarrow>
          prev[i := (prev ! i)\<lparr>
            status := (if v_status fullValidation = ''Validated'' then ''Validated''
                       else ''Corrected''),
            expert_validation := or_null (v_expert_validation fullValidation)\<rparr>]
      | None \<Rightarrow> prev)"

definition validation_INSERT ::
    "int option \<Rightarrow> ValidationHistory option \<Rightarrow> DataState \<Rightarrow> DataState" where
  "validation_INSERT newId fetched st =
     (if \<not> initialFetched st then st
      else if \<not> truthy_num newId then st
      else case fetched of
        None \<Rightarrow> st
      | Some fullValidation \<Rightarrow>
          st\<lparr>validationHistory :=
               (if list_ex (\<lambda>v. v_id v = v_id fullValidation) (validationHistory st)
                then validationHistory st
                else fullValidation # validationHistory st),
             scans :=
               (if truthy_num (scan_id fullValidation)
                then patch_scan fullValidation (scans st) else scans st)\<rparr>)"

definition validation_UPDATE ::
    "int option \<Rightarrow> ValidationHistory option \<Rightarrow> DataState \<Rightarrow> DataState" where
  "validation_UPDATE updId fetched st =
     (if \<not> initialFetched st then st
      else if \<not> truthy_num updId then st
      else case fetched of
        None \<Rightarrow> st
      | Some fullValidation \<Rightarrow>
          st\<lparr>validationHistory :=
               (case findIndex (\<lambda>v. v_id v = v_id fullValidation) (validationHistory st) of
                  None \<Rightarrow> fullValidation # validationHistory st
                | Some i \<Rightarrow> (validationHistory st)[i := fullValidation]),
             scans :=
               (if truthy_num (scan_id fullValidation)
                then patch_scan fullValidation (scans st) else scans st)\<rparr>)"

definition validation_DELETE :: "int option \<Rightarrow> DataState \<Rightarrow> DataState" where
  "validation_DELETE oldId st =
     (if \<not> initialFetched st then st
      else if truthy_num oldId
        then st\<lparr>validationHistory :=
               filter (\<lambda>v. Some (v_id v) \<noteq> oldId) (validationHistory st)\<rparr>
        else st)"

definition profiles_INSERT :: "DataState \<Rightarrow> DataState" where
  "profiles_INSERT st =
     (if \<not> initialFetched st then st else st\<lparr>totalUsers := totalUsers st + 1\<rparr>)"

definition profiles_DELETE :: "DataState \<Rightarrow> DataState" where
  "profiles_DELETE st =
     (if \<not> initialFetched st then st
      else st\<lparr>totalUsers := max 0 (totalUsers st - 1)\<rparr>)"

text \<open>The change feed: one constructor per \<open>.on("postgres_changes", ...)\<close> registration.\<close>

datatype change_event =
    Scans_INSERT "int option" "Scan option"
  | Scans_UPDATE "int option" "Scan option"
  | Scans_DELETE "int option"
  | Validation_INSERT "int option" "ValidationHistory option"
  | Validation_UPDATE "int option" "ValidationHistory option"
  | Validation_DELETE "int option"
  | Profiles_INSERT
  | Profiles_DELETE

fun apply_event :: "change_event \<Rightarrow> DataState \<Rightarrow> DataState" where
  "apply_event (Scans_INSERT i f) st = scans_INSERT i f st"
| "apply_event (Scans_UPDATE i f) st = scans_UPDATE i f st"
| "apply_event (Scans_DELETE i) st = scans_DELETE i st"
| "apply_event (Validation_INSERT i f) st = validation_INSERT i f st"
| "apply_event (Validation_UPDATE i f) st = validation_UPDATE i f st"
| "apply_event (Validation_DELETE i) st = validation_DELETE i st"
| "apply_event Profiles_INSERT st = profiles_INSERT st"
| "apply_event Profiles_DELETE st = profiles_DELETE st"

fun apply_events :: "change_event list \<Rightarrow> DataState \<Rightarrow> DataState" where
  "apply_events [] st = st"
| "apply_events (e # es) st = apply_events es (apply_event e st)"

subsection \<open>Local removal\<close>

definition removeScanFromState :: "int \<Rightarrow> DataState \<Rightarrow> DataState" where
  "removeScanFromState scanId st =
     st\<lparr>scans := filter (\<lambda>scan. s_id scan \<noteq> scanId) (scans st)\<rparr>"

subsection \<open>Values thrown or returned as errors by the backend client\<close>

text \<open>
  A value thrown, or returned as \<open>error\<close>, by the backend client, with the fields the
  handlers read.  The verdict of the guard \<open>isSupabaseApiError\<close> on the value is carried
  in \<open>t_isSupabaseApiError\<close>, the outcome of \<open>instanceof Error\<close> in
  \<open>t_instanceofError\<close>, and the text \<open>JSON.stringify\<close> gives for it in \<open>t_json\<close>.
\<close>

record Thrown =
  t_message :: "string option"
  t_status :: "int option"
  t_code :: "string option"
  t_details :: "string option"
  t_hint :: "string option"
  t_json :: string
  t_isSupabaseApiError :: bool
  t_instanceofError :: bool

text \<open>\<open>String.prototype.includes\<close> and \<open>toLowerCase\<close> (on ASCII letters).\<close>

fun str_includes :: "string \<Rightarrow> string \<Rightarrow> bool" where
  "str_includes [] sub = (sub = [])"
| "str_includes (c # cs) sub = (prefix sub (c # cs) \<or> str_includes cs sub)"

definition lower_char :: "char \<Rightarrow> char" where
  "lower_char c =
     (let n = (of_char c :: nat) in if 65 \<le> n \<and> n \<le> 90 then char_of (n + 32) else c)"

definition toLowerCase :: "string \<Rightarrow> string" where
  "toLowerCase s = map lower_char s"

text \<open>What the component does besides updating its own state, in the order it does it.\<close>

datatype action =
    Console_log string
  | Console_warn string
  | Console_error string
  | Call_fetchData bool bool
  | RemoveChannel string
  | Subscribe string

text \<open>
  \<open>Call_fetchData ready showSpinner\<close> is a call of a \<open>fetchData\<close> closure that captured
  \<open>isReady = ready\<close>; \<open>Subscribe name\<close> is the creation of the channel \<open>name\<close> with its
  eight change handlers and its status callback.
\<close>

subsection \<open>Bulk load\<close>

record FetchResponses =
  scansError :: "Thrown option"
  scansData :: "Scan list option"
  validationsError :: "Thrown option"
  validationsData :: "ValidationHistory list option"
  profilesError :: "Thrown option"
  profilesCount :: "int option"
  fallbackError :: "Thrown option"
  fallbackData :: "Profile list option"

definition has_full_name :: "ValidationHistory \<Rightarrow> bool" where
  "has_full_name validation =
     (case expert_profile validation of None \<Rightarrow> False | Some p \<Rightarrow> truthy_str (full_name p))"

definition missingExpertIds :: "ValidationHistory list \<Rightarrow> string list" where
  "missingExpertIds validations =
     remdups (map (\<lambda>v. the (expert_id v))
       (filter (\<lambda>v. \<not> has_full_name v \<and> truthy_str (expert_id v)) validations))"

text \<open>\<open>new Map(entries).get(k)\<close>: the last entry with the key wins.\<close>

definition profileMap_get :: "Profile list \<Rightarrow> string \<Rightarrow> Profile option" where
  "profileMap_get fallbackProfiles k =
     map_of (rev (map (\<lambda>profile. (profile_id profile, profile)) fallbackProfiles)) k"

definition merge_profile :: "Profile list \<Rightarrow> ValidationHistory \<Rightarrow> ValidationHistory" where
  "merge_profile fallbackProfiles validation =
     (if has_full_name validation \<or> \<not> truthy_str (expert_id validation) then validation
      else case profileMap_get fallbackProfiles (the (expert_id validation)) of
        None \<Rightarrow> validation
      | Some profile \<Rightarrow>
          validation\<lparr>expert_profile := Some \<lparr>profile_id = profile_id profile,
            username = username profile, full_name = full_name profile,
            email = email profile, profile_picture = None\<rparr>\<rparr>)"

text \<open>
  The \<open>try\<close> block of \<open>fetchData\<close>: \<open>Inl\<close> is the value thrown, \<open>Inr\<close> the three values
  stored and what was logged on the way.
\<close>

definition fetch_try ::
    "FetchResponses \<Rightarrow> Thrown + (Scan list \<times> ValidationHistory list \<times> int \<times> action list)" where
  "fetch_try r =
     (case scansError r of Some e \<Rightarrow> Inl e | None \<Rightarrow>
      case validationsError r of Some e \<Rightarrow> Inl e | None \<Rightarrow>
      case profilesError r of Some e \<Rightarrow> Inl e | None \<Rightarrow>
        let validations = (case validationsData r of None \<Rightarrow> [] | Some vs \<Rightarrow> vs);
            (validations', logged) =
              (if missingExpertIds validations \<noteq> [] then
                 (case fallbackError r of
                    Some e \<Rightarrow> (validations, [Console_error ''Error fetching expert profiles:''])
                  | None \<Rightarrow>
                      (case fallbackData r of
                         None \<Rightarrow> (validations, [])
                       | Some fallbackProfiles \<Rightarrow>
                           (map (merge_profile fallbackProfiles) validations, [])))
               else (validations, []))
        in Inr ((case scansData r of None \<Rightarrow> [] | Some ss \<Rightarrow> ss), validations',
                (case profilesCount r of None \<Rightarrow> 0 | Some n \<Rightarrow> n), logged))"

definition is_refresh_token_error :: "Thrown \<Rightarrow> bool" where
  "is_refresh_token_error err =
     (let errorMessage = (case t_message err of None \<Rightarrow> [] | Some m \<Rightarrow> m)
      in str_includes errorMessage ''Refresh Token''
         \<or> str_includes errorMessage ''refresh_token_not_found''
         \<or> t_status err = Some 401)"

definition fetch_catch :: "Thrown \<Rightarrow> DataState \<Rightarrow> DataState \<times> action list" where
  "fetch_catch err st =
     (if t_isSupabaseApiError err \<and> is_refresh_token_error err then
        (st\<lparr>error := Some ''Session expired. Please log in again.''\<rparr>,
         [Console_warn ''Invalid refresh token detected in data fetch, user will be signed out...''])
      else
        let message = (if t_instanceofError err
                       then (case t_message err of None \<Rightarrow> ''undefined'' | Some m \<Rightarrow> m)
                       else ''Unknown error'')
        in (st\<lparr>error := Some (''Failed to load data: '' @ message)\<rparr>,
            [Console_error ''Error fetching dashboard data:'']))"

text \<open>
  \<open>fetchData\<close>, for a closure that captured \<open>isReady = ready\<close>.  The answers of the backend
  are the argument \<open>r\<close> (a request that throws is an answer with that error); the whole
  call is one step of the state.
\<close>

definition fetchData ::
    "bool \<Rightarrow> bool \<Rightarrow> FetchResponses \<Rightarrow> DataState \<Rightarrow> DataState \<times> action list" where
  "fetchData ready showSpinner r st =
     (if \<not> ready \<or> isFetching st then (st, [])
      else
        let st1 = st\<lparr>isFetching := True\<rparr>;
            shouldShowSpinner = (showSpinner \<or> \<not> initialFetched st1);
            st2 = (if shouldShowSpinner then st1\<lparr>loading := True\<rparr> else st1);
            st3 = st2\<lparr>error := None\<rparr>;
            (st4, logged) =
              (case fetch_try r of
                 Inl err \<Rightarrow> fetch_catch err st3
               | Inr (ss, vs, n, logged) \<Rightarrow>
                   (st3\<lparr>scans := ss, validationHistory := vs, totalUsers := n,
                        initialFetched := True\<rparr>, logged))
        in (st4\<lparr>isFetching := False, loading := False\<rparr>, logged))"

subsection \<open>Effects of the provider\<close>



definition refetch_fallback :: "DataState \<Rightarrow> action list" where
  "refetch_fallback st =
     (if initialFetched st then
        (case fetchDataRef st of None \<Rightarrow> [] | Some ready \<Rightarrow> [Call_fetchData ready False])
      else [])"


definition subscription_cleanup :: "DataState \<Rightarrow> DataState \<times> action list" where
  "subscription_cleanup st =
     (case channelRef st of
        Some c \<Rightarrow> (st\<lparr>channelRef := None, subscriptionActive := False\<rparr>, [RemoveChannel c])
      | None \<Rightarrow> (st, []))"



subsection \<open>The status callback of the channel\<close>

datatype subscribe_status = SUBSCRIBED | TIMED_OUT | CLOSED | CHANNEL_ERROR

text \<open>
  The second argument of the callback: nothing, a string, an \<open>Error\<close> with its message,
  or another object, of which the callback reads \<open>message\<close>, \<open>error\<close>, \<open>toString()\<close> and
  the JSON text.
\<close>

datatype callback_err =
    No_err
  | Err_string string
  | Err_Error string
  | Err_object "string option" "string option" "string option" "string option"

fun first_truthy :: "string option list \<Rightarrow> string \<Rightarrow> string" where
  "first_truthy [] d = d"
| "first_truthy (x # xs) d = (case x of Some s \<Rightarrow> if s \<noteq> [] then s else first_truthy xs d
                              | None \<Rightarrow> first_truthy xs d)"

fun errorMessage_of :: "callback_err \<Rightarrow> string" where
  "errorMessage_of No_err = ''Unknown error''"
| "errorMessage_of (Err_string s) = (if s = [] then ''Unknown error'' else s)"
| "errorMessage_of (Err_Error m) = (if m = [] then ''Unknown error'' else m)"
| "errorMessage_of (Err_object m e t j) = first_truthy [m, e, t, j] ''Unknown error''"

fun is_object_err :: "callback_err \<Rightarrow> bool" where
  "is_object_err (Err_Error m) = True"
| "is_object_err (Err_object m e t j) = True"
| "is_object_err _ = False"

definition mentions_realtime :: "string \<Rightarrow> bool" where
  "mentions_realtime errorMessage =
     (let errorStr = toLowerCase errorMessage
      in str_includes errorStr ''realtime'' \<or> str_includes errorStr ''publication''
         \<or> str_includes errorStr ''not enabled'' \<or> str_includes errorStr ''permission'')"

text \<open>
  \<open>development\<close> is the test \<open>process.env.NODE_ENV === "development"\<close>; \<open>name\<close> is the
  channel the callback belongs to.
\<close>

definition status_callback ::
    "bool \<Rightarrow> string \<Rightarrow> subscribe_status \<Rightarrow> callback_err \<Rightarrow> DataState
       \<Rightarrow> DataState \<times> action list" where
  "status_callback development name status' err st =
     (case status' of
        SUBSCRIBED \<Rightarrow>
          (st\<lparr>channelRef := Some name, subscriptionActive := True\<rparr>,
           if development
           then [Console_log ''Real-time subscription active for scans and validations'']
           else [])
      | CHANNEL_ERROR \<Rightarrow>
          let errorMessage = errorMessage_of err;
              logged =
                (if development then
                   Console_error (''Error subscribing to real-time data changes: '' @ errorMessage)
                   # (if is_object_err err then [Console_error ''Full error object:''] else [])
                 else []);
              warned =
                (if mentions_realtime errorMessage \<and> development
                 then [Console_warn ''Realtime may not be enabled on your tables. Please enable Realtime on the 'scans' and 'validation_history' tables in your Supabase dashboard.'']
                 else [])
          in (st\<lparr>subscriptionActive := False\<rparr>, logged @ warned @ refetch_fallback st)
      | _ \<Rightarrow>
          (st\<lparr>subscriptionActive := False\<rparr>,
           (if development
            then [Console_warn ''Real-time connection lost, attempting to refresh data'']
            else [])
           @ refetch_fallback st))"

section \<open>The pages that write to the backend\<close>

text \<open>
  A page handler is modelled by the state of the page it leaves and by the list of its
  outward effects, in order: toasts, console errors, the writes it sends to the backend
  and its calls into the cache component.  The backend client resolves each write with an
  optional error; these answers are arguments of the model.  A write whose answer the
  handler does not inspect has no such argument.
\<close>

record ScanUpdatePayload =
  p_status :: string
  p_expert_comment :: "string option option"
  p_updated_at :: string

text \<open>
  In \<open>p_expert_comment\<close>, \<open>None\<close> is a payload without the key and \<open>Some None\<close> one with
  the value null.
\<close>

record HistoryPayload =
  h_scan_id :: int
  h_expert_id :: string
  h_ai_prediction :: "string option"
  h_expert_validation :: string
  h_status :: string
  h_validated_at :: string
  h_expert_comment :: "string option"

datatype effect =
    Toast_error string
  | Toast_success string
  | Log_error "string list"
  | Scans_update int ScanUpdatePayload
  | History_insert HistoryPayload
  | History_update_for int string HistoryPayload
  | History_update_by_id int string string
  | History_delete int
  | Call_removeScanFromState int
  | Call_refreshData

text \<open>
  \<open>Scans_update i p\<close> is \<open>from("scans").update(p).eq("id", i)\<close>;
  \<open>History_update_for i e p\<close> is
  \<open>from("validation_history").update(p).eq("scan_id", i).eq("expert_id", e)\<close>;
  \<open>History_update_by_id i v s\<close> is
  \<open>from("validation_history").update({expert_validation: v, status: s}).eq("id", i)\<close>;
  \<open>History_delete i\<close> is \<open>from("validation_history").delete().eq("id", i)\<close>.
\<close>

fun is_remote_write :: "effect \<Rightarrow> bool" where
  "is_remote_write (Scans_update i p) = True"
| "is_remote_write (History_insert p) = True"
| "is_remote_write (History_update_for i e p) = True"
| "is_remote_write (History_update_by_id i v s) = True"
| "is_remote_write (History_delete i) = True"
| "is_remote_write _ = False"

text \<open>\<open>xs[i]\<close> on an array: undefined out of range.\<close>

definition at_index :: "'a list \<Rightarrow> nat \<Rightarrow> 'a option" where
  "at_index xs i = (if i < length xs then Some (xs ! i) else None)"

subsection \<open>History page\<close>

record HistoryPage =
  editIdx :: "nat option"
  deleteIdx :: "nat option"
  editForm_expert_validation :: string
  editForm_status :: string
  editLoading :: bool

definition handleEdit ::
    "User option \<Rightarrow> ValidationHistory list \<Rightarrow> Thrown option \<Rightarrow> string \<Rightarrow> HistoryPage
       \<Rightarrow> HistoryPage \<times> effect list" where
  "handleEdit user filtered updateError now pg =
     (case editIdx pg of
        None \<Rightarrow> (pg, [])
      | Some idx \<Rightarrow>
          (case at_index filtered idx of
             None \<Rightarrow> (pg, [])
           | Some record \<Rightarrow>
               (case user of
                  None \<Rightarrow> (pg, [])
                | Some u \<Rightarrow>
                    if expert_id record \<noteq> Some (user_id u)
                    then (pg, [Toast_error ''You can only edit your own validations.''])
                    else
                      let write = History_update_by_id (v_id record)
                            (editForm_expert_validation pg) (editForm_status pg)
                      in (case updateError of
                            Some e \<Rightarrow>
                              (pg\<lparr>editLoading := False\<rparr>,
                               [write, Log_error [''Error updating validation:''],
                                Toast_error ''Failed to update validation record''])
                          | None \<Rightarrow>
                              (pg\<lparr>editIdx := None, editForm_expert_validation := [],
                                  editForm_status := [], editLoading := False\<rparr>,
                               [write]
                               @ (case scan_id record of
                                    Some k \<Rightarrow>
                                      if k \<noteq> 0 then
                                        [Scans_update k \<lparr>p_status = editForm_status pg,
                                           p_expert_comment =
                                             Some (Some (editForm_expert_validation pg)),
                                           p_updated_at = now\<rparr>]
                                      else []
                                  | None \<Rightarrow> [])
                               @ [Toast_success ''Validation record updated successfully'',
                                  Call_refreshData])))))"

definition handleDelete ::
    "User option \<Rightarrow> ValidationHistory list \<Rightarrow> Thrown option \<Rightarrow> string \<Rightarrow> HistoryPage
       \<Rightarrow> HistoryPage \<times> effect list" where
  "handleDelete user filtered deleteError now pg =
     (case deleteIdx pg of
        None \<Rightarrow> (pg, [])
      | Some idx \<Rightarrow>
          (case at_index filtered idx of
             None \<Rightarrow> (pg, [])
           | Some record \<Rightarrow>
               (case user of
                  None \<Rightarrow> (pg, [])
                | Some u \<Rightarrow>
                    if expert_id record \<noteq> Some (user_id u)
                    then (pg\<lparr>deleteIdx := None\<rparr>,
                          [Toast_error ''You can only delete your own validations.''])
                    else
                      (case deleteError of
                         Some e \<Rightarrow>
                           (pg\<lparr>editLoading := False\<rparr>,
                            [History_delete (v_id record),
                             Log_error [''Error deleting validation:''],
                             Toast_error ''Failed to delete validation record''])
                       | None \<Rightarrow>
                           (pg\<lparr>deleteIdx := None, editLoading := False\<rparr>,
                            [History_delete (v_id record)]
                            @ (case scan_id record of
                                 Some k \<Rightarrow>
                                   if k \<noteq> 0 \<and> (v_status record = ''Validated''
                                                \<or> v_status record = ''Corrected'')
                                   then
                                     [Scans_update k \<lparr>p_status = ''Pending Validation'',
                                        p_expert_comment = Some None, p_updated_at = now\<rparr>]
                                   else []
                               | None \<Rightarrow> [])
                            @ [Toast_success ''Validation record deleted successfully'',
                               Call_refreshData])))))"

subsection \<open>Validate page\<close>

datatype validation_action = Confirm | Correct

text \<open>
  The maps \<open>notes\<close> and \<open>decision\<close> are keyed in the code by \<open>scanId.toString()\<close>, and
  \<open>detailId\<close> is such a key; the model keys them by the scan id itself.
\<close>

record ValidatePage =
  processingScanId :: "int option"
  "notes" :: "int \<rightharpoonup> string"
  decision :: "int \<rightharpoonup> string"
  detailId :: "int option"

record ValidationOutcomes =
  scanUpdateError :: "Thrown option"
  historyInsertError :: "Thrown option"
  historyUpdateError :: "Thrown option"
  rollbackError :: "Thrown option"

text \<open>
  \<open>String.prototype.trim\<close>.  A string of the model is the UTF-8 text of the JavaScript
  string.  The white space that \<open>trim\<close> removes is TAB, LF, VT, FF, CR and SPACE (one byte
  each), U+00A0 (two bytes), and U+1680, U+2000 to U+200A, U+2028, U+2029, U+202F, U+205F,
  U+3000 and U+FEFF (three bytes each).  The first byte of a character of several bytes
  occurs nowhere else in a text, so a text starts or ends with these bytes exactly when it
  starts or ends with the character.
\<close>

definition white_space1 :: "char \<Rightarrow> bool" where
  "white_space1 a = (a = CHR 0x20 \<or> a = CHR 0x09 \<or> a = CHR 0x0A \<or> a = CHR 0x0B
     \<or> a = CHR 0x0C \<or> a = CHR 0x0D)"

definition white_space2 :: "char \<Rightarrow> char \<Rightarrow> bool" where
  "white_space2 a b = (a = CHR 0xC2 \<and> b = CHR 0xA0)"

definition white_space3 :: "char \<Rightarrow> char \<Rightarrow> char \<Rightarrow> bool" where
  "white_space3 a b c =
     ((a = CHR 0xE1 \<and> b = CHR 0x9A \<and> c = CHR 0x80)
      \<or> (a = CHR 0xE2 \<and> b = CHR 0x80
          \<and> (c \<in> set [CHR 0x80, CHR 0x81, CHR 0x82, CHR 0x83, CHR 0x84, CHR 0x85, CHR 0x86,
                         CHR 0x87, CHR 0x88, CHR 0x89, CHR 0x8A, CHR 0xA8, CHR 0xA9, CHR 0xAF]))
      \<or> (a = CHR 0xE2 \<and> b = CHR 0x81 \<and> c = CHR 0x9F)
      \<or> (a = CHR 0xE3 \<and> b = CHR 0x80 \<and> c = CHR 0x80)
      \<or> (a = CHR 0xEF \<and> b = CHR 0xBB \<and> c = CHR 0xBF))"

fun trimStart :: "string \<Rightarrow> string" where
  "trimStart (a # b # c # s) =
     (if white_space1 a then trimStart (b # c # s)
      else if white_space2 a b then trimStart (c # s)
      else if white_space3 a b c then trimStart s
      else a # b # c # s)"
| "trimStart [a, b] =
     (if white_space1 a then trimStart [b]
      else if white_space2 a b then []
      else [a, b])"
| "trimStart [a] = (if white_space1 a then [] else [a])"
| "trimStart [] = []"

text \<open>The same from the end, on the reversed text: \<open>c\<close> is its last byte, \<open>b\<close> the one before.\<close>

fun trimEnd_rev :: "string \<Rightarrow> string" where
  "trimEnd_rev (c # b # a # s) =
     (if white_space1 c then trimEnd_rev (b # a # s)
      else if white_space2 b c then trimEnd_rev (a # s)
      else if white_space3 a b c then trimEnd_rev s
      else c # b # a # s)"
| "trimEnd_rev [b, a] =
     (if white_space1 b then trimEnd_rev [a]
      else if white_space2 a b then []
      else [b, a])"
| "trimEnd_rev [a] = (if white_space1 a then [] else [a])"
| "trimEnd_rev [] = []"

definition trim :: "string \<Rightarrow> string" where
  "trim s = rev (trimEnd_rev (rev (trimStart s)))"

text \<open>\<open>x && x.trim().length > 0 ? x.trim() : null\<close>\<close>

definition trimmed_or_null :: "string option \<Rightarrow> string option" where
  "trimmed_or_null x =
     (case x of None \<Rightarrow> None
      | Some s \<Rightarrow> if s \<noteq> [] \<and> trim s \<noteq> [] then Some (trim s) else None)"

fun join :: "string \<Rightarrow> string list \<Rightarrow> string" where
  "join sep [] = []"
| "join sep [x] = x"
| "join sep (x # y # ys) = x @ sep @ join sep (y # ys)"

text \<open>The separator literal of \<open>buildSupabaseErrorMessage\<close>, byte for byte.\<close>

definition part_separator :: string where
  "part_separator =
     [CHR '' '', CHR 0xC3, CHR 0xA2, CHR 0xE2, CHR 0x82, CHR 0xAC, CHR 0xC2, CHR 0xA2, CHR '' '']"

definition buildSupabaseErrorMessage :: "Thrown option \<Rightarrow> string" where
  "buildSupabaseErrorMessage err =
     (case err of
        None \<Rightarrow> ''Unknown error''
      | Some e \<Rightarrow>
          let parts = map the (filter truthy_str [t_message e, t_details e, t_hint e])
          in if parts \<noteq> [] then join part_separator parts else t_json e)"

text \<open>Decimal text of a scan id, for the success toast.\<close>

fun digits :: "nat \<Rightarrow> string" where
  "digits n = (if n < 10 then [char_of (48 + n)]
               else digits (n div 10) @ [char_of (48 + n mod 10)])"

definition toString :: "int \<Rightarrow> string" where
  "toString i = (if i < 0 then CHR ''-'' # digits (nat (- i)) else digits (nat i))"

definition signed_in_id :: "User option \<Rightarrow> string option" where
  "signed_in_id user =
     (case user of None \<Rightarrow> None | Some u \<Rightarrow> if user_id u = [] then None else Some (user_id u))"

text \<open>
  The \<open>catch\<close> block of \<open>handleValidation\<close>: the rollback of the scan when the first
  write had gone through, then the report.
\<close>

definition validation_catch ::
    "int \<Rightarrow> validation_action \<Rightarrow> bool \<Rightarrow> string \<Rightarrow> string \<Rightarrow> Thrown option \<Rightarrow> Thrown
       \<Rightarrow> effect list" where
  "validation_catch scanId action scanUpdated originalStatus rollbackTime rollbackErr err =
     (if scanUpdated then
        Scans_update scanId \<lparr>p_status = originalStatus, p_expert_comment = None,
          p_updated_at = rollbackTime\<rparr>
        # (case rollbackErr of
             Some e \<Rightarrow> [Log_error [''Failed to rollback scan update:'']]
           | None \<Rightarrow> [])
      else [])
     @ [Log_error
          [if action = Confirm then ''Error confirming validation:''
           else ''Error correcting validation:'',
           buildSupabaseErrorMessage (if t_isSupabaseApiError err then Some err else None)],
        Toast_error (if action = Confirm then ''Failed to confirm validation''
                     else ''Failed to correct validation'')]"

definition corrected_of :: "ValidatePage \<Rightarrow> int \<Rightarrow> string" where
  "corrected_of pg scanId =
     (case trimmed_or_null (decision pg scanId) of None \<Rightarrow> [] | Some c \<Rightarrow> c)"

definition expertValidation_of :: "validation_action \<Rightarrow> Scan \<Rightarrow> string \<Rightarrow> string option" where
  "expertValidation_of action selectedScan corrected =
     (if action = Confirm then ai_prediction selectedScan
      else if corrected \<noteq> [] then Some corrected
      else ai_prediction selectedScan)"

definition status_of :: "validation_action \<Rightarrow> string" where
  "status_of action = (if action = Confirm then ''Validated'' else ''Corrected'')"

definition updatePayload_of :: "validation_action \<Rightarrow> string \<Rightarrow> ScanUpdatePayload" where
  "updatePayload_of action timestamp =
     \<lparr>p_status = status_of action, p_expert_comment = None, p_updated_at = timestamp\<rparr>"

definition insertPayload_of ::
    "int \<Rightarrow> validation_action \<Rightarrow> Scan \<Rightarrow> string \<Rightarrow> string \<Rightarrow> ValidatePage \<Rightarrow> HistoryPayload" where
  "insertPayload_of scanId action selectedScan uid timestamp pg =
     \<lparr>h_scan_id = scanId, h_expert_id = uid,
      h_ai_prediction = ai_prediction selectedScan,
      h_expert_validation =
        the (expertValidation_of action selectedScan (corrected_of pg scanId)),
      h_status = status_of action, h_validated_at = timestamp,
      h_expert_comment = trimmed_or_null (notes pg scanId)\<rparr>"

definition successMessage :: "validation_action \<Rightarrow> int \<Rightarrow> string" where
  "successMessage action scanId =
     (if status_of action = ''Validated''
      then ''Validation for scan '' @ toString scanId @ '' confirmed''
      else ''Validation for scan '' @ toString scanId @ '' corrected'')"

definition handleValidation ::
    "int \<Rightarrow> validation_action \<Rightarrow> Scan list \<Rightarrow> User option \<Rightarrow> ValidationOutcomes
       \<Rightarrow> string \<Rightarrow> string \<Rightarrow> ValidatePage \<Rightarrow> ValidatePage \<times> effect list" where
  "handleValidation scanId action scans' user out timestamp rollbackTime pg =
     (if processingScanId pg = Some scanId then (pg, [])
      else case find (\<lambda>scan. s_id scan = scanId) scans' of
        None \<Rightarrow> (pg, [Toast_error ''Scan not found''])
      | Some selectedScan \<Rightarrow>
          (case signed_in_id user of
             None \<Rightarrow> (pg, [Toast_error ''You must be signed in to validate scans.''])
           | Some uid \<Rightarrow>
               if action = Correct \<and> corrected_of pg scanId = []
               then (pg, [Toast_error ''Please select or enter the corrected result.''])
               else if \<not> truthy_str
                        (expertValidation_of action selectedScan (corrected_of pg scanId))
               then (pg, [Toast_error ''Unable to determine validation result.''])
               else
                 let originalStatus = status selectedScan;
                     updatePayload = updatePayload_of action timestamp;
                     insertPayload = insertPayload_of scanId action selectedScan uid timestamp pg;
                     failed = (\<lambda>scanUpdated sent err.
                       (pg\<lparr>processingScanId := None\<rparr>,
                        sent @ validation_catch scanId action scanUpdated
                          originalStatus rollbackTime (rollbackError out) err));
                     succeeded = (\<lambda>sent.
                       (pg\<lparr>processingScanId := None,
                           decision := (decision pg)(scanId := None),
                           notes := (notes pg)(scanId := None),
                           detailId := (if detailId pg = Some scanId then None
                                        else detailId pg)\<rparr>,
                        sent @
                        [Toast_success (successMessage action scanId),
                         Call_removeScanFromState scanId, Call_refreshData]))
                 in (case scanUpdateError out of
                       Some e \<Rightarrow> failed False [Scans_update scanId updatePayload] e
                     | None \<Rightarrow>
                         (case historyInsertError out of
                            None \<Rightarrow>
                              succeeded [Scans_update scanId updatePayload,
                                         History_insert insertPayload]
                          | Some historyError \<Rightarrow>
                              if t_code historyError = Some ''23505'' then
                                (case historyUpdateError out of
                                   None \<Rightarrow>
                                     succeeded [Scans_update scanId updatePayload,
                                       History_insert insertPayload,
                                       History_update_for scanId uid insertPayload]
                                 | Some updateHistoryError \<Rightarrow>
                                     failed True
                                       [Scans_update scanId updatePayload,
                                        History_insert insertPayload,
                                        History_update_for scanId uid insertPayload,
                                        Log_error [''Error updating validation history:'']]
                                       updateHistoryError)
                              else
                                failed True
                                  [Scans_update scanId updatePayload,
                                   History_insert insertPayload,
                                   Log_error [''Error creating validation history:'']]
                                  historyError))))"

section \<open>The reports page\<close>

subsection \<open>JavaScript numbers\<close>

text \<open>
  A JavaScript number is an IEEE-754 double.  The finite doubles are real numbers, and an
  arithmetic operation returns the exact result rounded to the nearest double, ties going
  to the even significand.  \<open>fl\<close> is that rounding for magnitudes in the normal range
  (from \<open>2 powi (-1022)\<close> up to the overflow threshold), where every value of the
  computation below lies: the double nearest to \<open>x\<close> is a multiple of the unit in the last
  place of the binade of \<open>x\<close>, which has 53 significant bits.
\<close>

definition round_half_even :: "real \<Rightarrow> int" where
  "round_half_even y =
     (let f = \<lfloor>y\<rfloor> in
      if y - of_int f < 1 / 2 then f
      else if 1 / 2 < y - of_int f then f + 1
      else if even f then f else f + 1)"

text \<open>
  The binade of a positive \<open>x\<close> is the exponent \<open>e\<close> with \<open>2 powi e \<le> x < 2 powi (e + 1)\<close>;
  it is read off the bit length of the integer part of \<open>x\<close>, or of \<open>1 / x\<close> rounded up.
\<close>

definition binade :: "real \<Rightarrow> int" where
  "binade x = (if 1 \<le> x then bitlen \<lfloor>x\<rfloor> - 1 else - bitlen (\<lceil>1 / x\<rceil> - 1))"

definition ulp :: "real \<Rightarrow> real" where
  "ulp x = 2 powi (binade x - 52)"

definition fl :: "real \<Rightarrow> real" where
  "fl x = (if x = 0 then 0
           else if 0 < x then of_int (round_half_even (x / ulp x)) * ulp x
           else - (of_int (round_half_even (- x / ulp (- x))) * ulp (- x)))"

text \<open>The operators \<open>/\<close> and \<open>*\<close> on numbers.\<close>

definition js_divide :: "real \<Rightarrow> real \<Rightarrow> real" where
  "js_divide a b = fl (a / b)"

definition js_times :: "real \<Rightarrow> real \<Rightarrow> real" where
  "js_times a b = fl (a * b)"

text \<open>
  \<open>x.toFixed(1)\<close> for \<open>0 \<le> x < 10^21\<close> is the decimal text, with one fractional digit, of
  \<open>n / 10\<close> for the integer \<open>n\<close> that brings \<open>n / 10\<close> closest to \<open>x\<close>, the larger one if
  there are two.  The text is represented by \<open>n\<close>, its number of tenths; \<open>parseFloat\<close> of
  the text is the double nearest to \<open>n / 10\<close>.
\<close>

definition toFixed1 :: "real \<Rightarrow> int" where
  "toFixed1 x = \<lfloor>10 * x + 1 / 2\<rfloor>"

definition parseFloat1 :: "int \<Rightarrow> real" where
  "parseFloat1 n = fl (of_int n / 10)"

subsection \<open>Accuracy rate\<close>

text \<open>
  The two counts are lengths of arrays, hence integers below \<open>2 ^ 32\<close>; they and their sum
  are doubles as they stand.  The quotient and the product with 100 are each rounded.
\<close>

definition aiAccuracyRate :: "Scan list \<Rightarrow> real" where
  "aiAccuracyRate filteredScans =
     (let validatedCount = length (filter (\<lambda>s. status s = ''Validated'') filteredScans);
          correctedCount = length (filter (\<lambda>s. status s = ''Corrected'') filteredScans);
          total = validatedCount + correctedCount
      in if total = 0 then 0
         else
           let rate = js_times (js_divide (real validatedCount) (real total)) 100
           in parseFloat1 (toFixed1 rate))"

section \<open>Notions used to state the properties\<close>

text \<open>Running an action of the cache component: only a call of \<open>fetchData\<close> touches the state.\<close>

fun run_action :: "FetchResponses \<Rightarrow> action \<Rightarrow> DataState \<Rightarrow> DataState \<times> action list" where
  "run_action r (Call_fetchData ready showSpinner) st = fetchData ready showSpinner r st"
| "run_action r a st = (st, [])"

fun is_console :: "action \<Rightarrow> bool" where
  "is_console (Console_log m) = True"
| "is_console (Console_warn m) = True"
| "is_console (Console_error m) = True"
| "is_console _ = False"


fun is_insert :: "change_event \<Rightarrow> bool" where
  "is_insert (Scans_INSERT i f) = True"
| "is_insert (Validation_INSERT i f) = True"
| "is_insert _ = False"

text \<open>
  The mirror invariant in the words of the specification: the rows of a scan are the
  cached validation rows that refer to it, the most recent one is the one with the
  greatest \<open>validated_at\<close> (ISO timestamps compare as strings; among equal timestamps the
  first in cache order), and the scan mirrors it when every cached scan with that id
  carries the row's \<open>status\<close> and \<open>expert_validation\<close>.
\<close>

fun str_less :: "string \<Rightarrow> string \<Rightarrow> bool" where
  "str_less [] [] = False"
| "str_less [] (y # ys) = True"
| "str_less (x # xs) [] = False"
| "str_less (x # xs) (y # ys) =
     ((of_char x :: nat) < of_char y \<or> (x = y \<and> str_less xs ys))"

definition associated_rows :: "int \<Rightarrow> ValidationHistory list \<Rightarrow> ValidationHistory list" where
  "associated_rows k vs = filter (\<lambda>v. scan_id v = Some k) vs"

fun most_recent :: "ValidationHistory list \<Rightarrow> ValidationHistory option" where
  "most_recent [] = None"
| "most_recent (v # vs) =
     (case most_recent vs of
        None \<Rightarrow> Some v
      | Some w \<Rightarrow> if str_less (validated_at v) (validated_at w) then Some w else Some v)"

definition mirrors_most_recent :: "DataState \<Rightarrow> int \<Rightarrow> bool" where
  "mirrors_most_recent st k =
     (case most_recent (associated_rows k (validationHistory st)) of
        None \<Rightarrow> True
      | Some v \<Rightarrow>
          list_all (\<lambda>s. s_id s \<noteq> k
                        \<or> (status s = v_status v \<and> expert_validation s = v_expert_validation v))
            (scans st))"

text \<open>
  The number of scans with a given status, and the conventional rounding of a real to one
  decimal place (nearest multiple of \<open>1 / 10\<close>, halves upwards) as a number.
\<close>

definition count_status :: "string \<Rightarrow> Scan list \<Rightarrow> nat" where
  "count_status x xs = length (filter (\<lambda>s. status s = x) xs)"

definition rounded_to_one_decimal :: "real \<Rightarrow> real" where
  "rounded_to_one_decimal x = fl (of_int \<lfloor>10 * x + 1 / 2\<rfloor> / 10)"

section \<open>Sample data\<close>

definition example_scan :: "int \<Rightarrow> string \<Rightarrow> string option \<Rightarrow> string option \<Rightarrow> Scan" where
  "example_scan i s p e =
     \<lparr>s_id = i, farmer_id = Some ''farmer-1'', scan_type = ''leaf_disease'',
      ai_prediction = p, confidence = Some (9 / 10), status = s, expert_validation = e,
      expert_comment = None, created_at = ''2024-01-01T00:00:00.000Z'',
      updated_at = ''2024-01-01T00:00:00.000Z'', farmer_profile = None\<rparr>"

definition example_validation ::
    "int \<Rightarrow> int \<Rightarrow> string \<Rightarrow> string \<Rightarrow> string \<Rightarrow> string \<Rightarrow> ValidationHistory" where
  "example_validation i k ex s e t =
     \<lparr>v_id = i, scan_id = Some k, expert_id = Some ex, v_ai_prediction = Some ''Healthy'',
      v_expert_validation = Some e, v_status = s, v_expert_comment = None,
      validated_at = t, expert_profile = None, scan = None\<rparr>"

definition example_state :: "Scan list \<Rightarrow> ValidationHistory list \<Rightarrow> DataState" where
  "example_state ss vs =
     \<lparr>scans = ss, validationHistory = vs, totalUsers = 3, loading = False, error = None,
      initialFetched = True, isFetching = False, fetchDataRef = Some True,
      channelRef = Some ''global-data-changes-expert-1'', subscriptionActive = True\<rparr>"

definition example_page :: ValidatePage where
  "example_page = \<lparr>processingScanId = None, notes = Map.empty, decision = Map.empty,
     detailId = None\<rparr>"

definition example_outcomes :: "Thrown option \<Rightarrow> Thrown option \<Rightarrow> ValidationOutcomes" where
  "example_outcomes ins rb = \<lparr>scanUpdateError = None, historyInsertError = ins,
     historyUpdateError = None, rollbackError = rb\<rparr>"

definition example_error :: "string \<Rightarrow> Thrown" where
  "example_error c = \<lparr>t_message = Some ''request failed'', t_status = None,
     t_code = Some c, t_details = None, t_hint = None, t_json = ''{}'',
     t_isSupabaseApiError = True, t_instanceofError = False\<rparr>"

definition example_responses :: FetchResponses where
  "example_responses =
     \<lparr>scansError = None,
      scansData = Some [example_scan 4 ''Pending Validation'' (Some ''Healthy'') None],
      validationsError = None, validationsData = Some [],
      profilesError = None, profilesCount = Some 12,
      fallbackError = None, fallbackData = None\<rparr>"

definition revalidated_cache :: DataState where
  "revalidated_cache = example_state [example_scan 7 ''Validated'' (Some ''Healthy'') (Some ''Healthy'')]
     [example_validation 2 7 ''expert-2'' ''Validated'' ''Healthy'' ''2024-01-02T00:00:00.000Z'',
      example_validation 1 7 ''expert-1'' ''Corrected'' ''Downy Mildew''
        ''2024-01-01T00:00:00.000Z'']"

definition small_cache :: DataState where
  "small_cache = example_state
     [example_scan 2 ''Pending Validation'' (Some ''Healthy'') None,
      example_scan 1 ''Validated'' (Some ''Healthy'') (Some ''Healthy'')]
     [example_validation 10 1 ''expert-1'' ''Validated'' ''Healthy'' ''2024-01-02T00:00:00.000Z'']"

definition insert_burst :: "change_event list" where
  "insert_burst =
     [Scans_INSERT (Some 2) (Some (example_scan 2 ''Pending Validation'' (Some ''Healthy'') None)),
      Scans_INSERT (Some 3) (Some (example_scan 3 ''Pending Validation'' (Some ''Healthy'') None)),
      Validation_INSERT (Some 10)
        (Some (example_validation 10 1 ''expert-1'' ''Validated'' ''Healthy''
           ''2024-01-02T00:00:00.000Z'')),
      Validation_INSERT (Some 11)
        (Some (example_validation 11 2 ''expert-1'' ''Corrected'' ''Downy Mildew''
           ''2024-01-03T00:00:00.000Z''))]"

definition profile_churn :: "change_event list" where
  "profile_churn = [Profiles_DELETE, Profiles_DELETE, Profiles_DELETE, Profiles_DELETE,
     Profiles_INSERT, Scans_DELETE (Some 1), Profiles_DELETE, Profiles_DELETE]"


definition unpredicted_scan :: Scan where
  "unpredicted_scan = example_scan 5 ''Pending Validation'' (Some []) None"

definition pending_scan :: Scan where
  "pending_scan = example_scan 6 ''Pending Validation'' (Some ''Healthy'') None"

definition example_history_page :: HistoryPage where
  "example_history_page = \<lparr>editIdx = Some 0, deleteIdx = Some 0,
     editForm_expert_validation = ''Fusarium Wilt'', editForm_status = ''Corrected'',
     editLoading = False\<rparr>"

definition rated_scans :: "nat \<Rightarrow> nat \<Rightarrow> nat \<Rightarrow> Scan list" where
  "rated_scans v c p =
     replicate v (example_scan 1 ''Validated'' (Some ''Healthy'') (Some ''Healthy''))
     @ replicate p (example_scan 2 ''Pending Validation'' (Some ''Healthy'') None)
     @ replicate c (example_scan 3 ''Corrected'' (Some ''Healthy'') (Some ''Downy Mildew''))"

section \<open>Verification\<close>

subsection \<open>Auxiliary facts\<close>

lemma findIndex_Some:
  "findIndex P xs = Some i \<Longrightarrow> i < length xs \<and> P (xs ! i) \<and> (\<forall>j<i. \<not> P (xs ! j))"
proof (induction xs arbitrary: i)
  case Nil
  then show ?case by simp
next
  case (Cons x xs)
  show ?case
  proof (cases "P x")
    case True
    with Cons.prems show ?thesis by simp
  next
    case False
    with Cons.prems obtain k where k: "findIndex P xs = Some k" "i = Suc k"
      by auto
    from Cons.IH [OF k(1)] False k(2) show ?thesis
      by (auto simp: less_Suc_eq_0_disj)
  qed
qed

lemma map_s_id_patch_scan: "map s_id (patch_scan v xs) = map s_id xs"
  by (auto simp: patch_scan_def map_update split: option.splits dest!: findIndex_Some
      intro!: nth_equalityI simp: nth_list_update)

lemma patch_scan_at:
  assumes "scan_id v = Some k" "findIndex (\<lambda>s. s_id s = k) xs = Some n"
  shows "patch_scan v xs = xs[n := (xs ! n)\<lparr>
            status := (if v_status v = ''Validated'' then ''Validated'' else ''Corrected''),
            expert_validation := or_null (v_expert_validation v)\<rparr>]"
  using assms by (simp add: patch_scan_def)

lemma scans_INSERT_distinct:
  "distinct (map s_id (scans st)) \<Longrightarrow> distinct (map s_id (scans (scans_INSERT i f st)))"
  by (auto simp: scans_INSERT_def list_ex_iff split: option.splits)

lemma scans_INSERT_history: "validationHistory (scans_INSERT i f st) = validationHistory st"
  by (simp add: scans_INSERT_def split: option.splits)

lemma validation_INSERT_distinct:
  "distinct (map v_id (validationHistory st))
   \<Longrightarrow> distinct (map v_id (validationHistory (validation_INSERT i f st)))"
  by (auto simp: validation_INSERT_def list_ex_iff split: option.splits)

lemma validation_INSERT_scan_ids:
  "map s_id (scans (validation_INSERT i f st)) = map s_id (scans st)"
  by (simp add: validation_INSERT_def map_s_id_patch_scan split: option.splits)

lemma insert_event_distinct:
  assumes "is_insert e" "distinct (map s_id (scans st))"
    "distinct (map v_id (validationHistory st))"
  shows "distinct (map s_id (scans (apply_event e st)))
         \<and> distinct (map v_id (validationHistory (apply_event e st)))"
  using assms
  by (cases e)
    (simp_all add: scans_INSERT_distinct scans_INSERT_history validation_INSERT_distinct
      validation_INSERT_scan_ids)

lemma insert_events_distinct:
  "list_all is_insert es \<Longrightarrow> distinct (map s_id (scans st))
   \<Longrightarrow> distinct (map v_id (validationHistory st))
   \<Longrightarrow> distinct (map s_id (scans (apply_events es st)))
       \<and> distinct (map v_id (validationHistory (apply_events es st)))"
proof (induction es arbitrary: st)
  case Nil
  then show ?case by simp
next
  case (Cons e es)
  from Cons.prems have e: "is_insert e" and es: "list_all is_insert es" by simp_all
  from insert_event_distinct [OF e Cons.prems(2,3)]
  have "distinct (map s_id (scans (apply_event e st)))"
    "distinct (map v_id (validationHistory (apply_event e st)))" by simp_all
  from Cons.IH [OF es this] show ?case by simp
qed

lemma totalUsers_apply_event: "0 \<le> totalUsers st \<Longrightarrow> 0 \<le> totalUsers (apply_event e st)"
  by (cases e)
    (simp_all add: scans_INSERT_def scans_UPDATE_def scans_DELETE_def validation_INSERT_def
      validation_UPDATE_def validation_DELETE_def profiles_INSERT_def profiles_DELETE_def
      split: option.splits)

lemma totalUsers_apply_events: "0 \<le> totalUsers st \<Longrightarrow> 0 \<le> totalUsers (apply_events es st)"
  by (induction es arbitrary: st) (simp_all add: totalUsers_apply_event)

lemma trim_nonempty: "trim label \<noteq> [] \<Longrightarrow> label \<noteq> []"
  by (auto simp: trim_def)

lemmas white_space_defs = white_space1_def white_space2_def white_space3_def

subsection \<open>The mirror of validation rows in cached scans\<close>

text \<open>
  Claim C1, as amended.  An INSERT or UPDATE event on \<open>validation_history\<close> whose re-read
  row refers to a scan by a non-zero \<open>scan_id\<close> patches the first cached scan with that id:
  its status becomes \<open>Validated\<close> when the row says so and \<open>Corrected\<close> otherwise, and its
  \<open>expert_validation\<close> becomes that of the row, null when the row's is empty.  So the
  scan mirrors the row carried by the event, whether or not that row is the most recent
  one of the scan.  A DELETE event leaves the cached scans as they are.
\<close>

theorem validation_event_patches_scan:
  assumes "initialFetched st" and "truthy_num i"
    and "scan_id v = Some k" and "k \<noteq> 0"
    and "findIndex (\<lambda>s. s_id s = k) (scans st) = Some n"
    and "ev = Validation_INSERT i (Some v) \<or> ev = Validation_UPDATE i (Some v)"
  shows "scans (apply_event ev st) = (scans st)[n := (scans st ! n)\<lparr>
            status := (if v_status v = ''Validated'' then ''Validated'' else ''Corrected''),
            expert_validation := or_null (v_expert_validation v)\<rparr>]
         \<and> n < length (scans st) \<and> s_id (scans (apply_event ev st) ! n) = k
         \<and> (v_status v = ''Validated'' \<or> v_status v = ''Corrected''
              \<longrightarrow> status (scans (apply_event ev st) ! n) = v_status v)
         \<and> (v_expert_validation v \<noteq> Some []
              \<longrightarrow> expert_validation (scans (apply_event ev st) ! n) = v_expert_validation v)
         \<and> scans (apply_event (Validation_DELETE j) st) = scans st"
proof -
  let ?p = "(scans st ! n)\<lparr>
            status := (if v_status v = ''Validated'' then ''Validated'' else ''Corrected''),
            expert_validation := or_null (v_expert_validation v)\<rparr>"
  from findIndex_Some [OF assms(5)] have n: "n < length (scans st)" "s_id (scans st ! n) = k"
    by simp_all
  have eq: "scans (apply_event ev st) = (scans st)[n := ?p]"
    using assms(6) assms(1-4) patch_scan_at [OF assms(3) assms(5)]
    by (auto simp: validation_INSERT_def validation_UPDATE_def)
  have at: "scans (apply_event ev st) ! n = ?p"
    using n by (simp add: eq)
  have del: "scans (apply_event (Validation_DELETE j) st) = scans st"
    by (simp add: validation_DELETE_def)
  have ev: "v_expert_validation v \<noteq> Some []
            \<Longrightarrow> or_null (v_expert_validation v) = v_expert_validation v"
    by (cases "v_expert_validation v") (simp_all add: or_null_def)
  show ?thesis
    using eq at n del ev by auto
qed

text \<open>
  The theorem at an UPDATE of the older of two rows of scan 7: the cached scan takes the
  older row's verdict.
\<close>

theorem validation_event_patches_scan_witness:
  "initialFetched revalidated_cache \<and> truthy_num (Some 1)
   \<and> findIndex (\<lambda>s. s_id s = 7) (scans revalidated_cache) = Some 0
   \<and> scans (apply_event (Validation_UPDATE (Some 1)
        (Some (example_validation 1 7 ''expert-1'' ''Corrected'' ''Downy Mildew''
           ''2024-01-01T00:00:00.000Z''))) revalidated_cache)
       = [example_scan 7 ''Corrected'' (Some ''Healthy'') (Some ''Downy Mildew'')]
   \<and> scans (apply_event (Validation_DELETE (Some 2)) revalidated_cache) = scans revalidated_cache"
proof -
  let ?v = "example_validation 1 7 ''expert-1'' ''Corrected'' ''Downy Mildew''
           ''2024-01-01T00:00:00.000Z''"
  have h1: "initialFetched revalidated_cache"
    by (simp add: revalidated_cache_def example_state_def)
  have h2: "truthy_num (Some 1)" by simp
  have h3: "scan_id ?v = Some 7" by (simp add: example_validation_def)
  have h4: "(7::int) \<noteq> 0" by simp
  have h5: "findIndex (\<lambda>s. s_id s = 7) (scans revalidated_cache) = Some 0"
    by (simp add: revalidated_cache_def example_state_def example_scan_def)
  have h6: "Validation_UPDATE (Some 1) (Some ?v) = Validation_INSERT (Some 1) (Some ?v)
            \<or> Validation_UPDATE (Some 1) (Some ?v) = Validation_UPDATE (Some 1) (Some ?v)"
    by simp
  from validation_event_patches_scan [OF h1 h2 h3 h4 h5 h6, of "Some 2"] h1 h2 h5
  show ?thesis
    by (simp add: revalidated_cache_def example_state_def example_scan_def example_validation_def
        or_null_def)
qed

text \<open>
  Against the claim as written: scan 7 mirrors its most recent row, the row is deleted,
  and the cached scan keeps the deleted row's verdict although the most recent remaining
  row says \<open>Corrected\<close>.
\<close>

theorem mirror_broken_by_delete:
  "mirrors_most_recent revalidated_cache 7
   \<and> \<not> mirrors_most_recent (apply_event (Validation_DELETE (Some 2)) revalidated_cache) 7"
  by (simp add: revalidated_cache_def example_state_def example_scan_def example_validation_def
      mirrors_most_recent_def associated_rows_def validation_DELETE_def)

subsection \<open>Local removal of a scan\<close>

text \<open>
  Claim C6.  \<open>removeScanFromState(id)\<close> keeps exactly the cached scans whose id differs
  from the argument, in their order: the result is a subsequence of the cache, holds no
  scan with that id, holds the scans with another id as before, and a scan is in the
  result if and only if it was cached under another id.  The validation history, the user
  count, the loading flag and the error are untouched.
\<close>

theorem removeScanFromState_frame:
  "scans (removeScanFromState scanId st) = filter (\<lambda>s. s_id s \<noteq> scanId) (scans st)
   \<and> subseq (scans (removeScanFromState scanId st)) (scans st)
   \<and> filter (\<lambda>s. s_id s = scanId) (scans (removeScanFromState scanId st)) = []
   \<and> filter (\<lambda>s. s_id s \<noteq> scanId) (scans (removeScanFromState scanId st))
       = filter (\<lambda>s. s_id s \<noteq> scanId) (scans st)
   \<and> set (scans (removeScanFromState scanId st)) = set (scans st) \<inter> {s. s_id s \<noteq> scanId}
   \<and> validationHistory (removeScanFromState scanId st) = validationHistory st
   \<and> totalUsers (removeScanFromState scanId st) = totalUsers st
   \<and> loading (removeScanFromState scanId st) = loading st
   \<and> error (removeScanFromState scanId st) = error st"
  by (auto simp: removeScanFromState_def filter_empty_conv)

theorem removeScanFromState_frame_witness:
  "map s_id (scans small_cache) = [2, 1]
   \<and> map s_id (scans (removeScanFromState 2 small_cache)) = [1]
   \<and> validationHistory (removeScanFromState 2 small_cache) = validationHistory small_cache"
  using removeScanFromState_frame [of 2 small_cache]
  by (simp add: small_cache_def example_state_def example_scan_def)

subsection \<open>Insert events and duplicate ids\<close>

text \<open>
  Claim C8.  An INSERT event for a scan whose re-read row has an id already in the cached
  scans leaves the cached scans unchanged, and likewise for a validation row and the
  cached validation history.  Hence, whatever INSERT events are applied, the ids of the
  cached scans stay pairwise distinct and so do the ids of the cached validation rows.
\<close>

theorem insert_events_keep_ids_distinct:
  "((case f of None \<Rightarrow> True | Some fullScan \<Rightarrow> list_ex (\<lambda>s. s_id s = s_id fullScan) (scans st))
      \<longrightarrow> scans (apply_event (Scans_INSERT i f) st) = scans st)
   \<and> ((case g of None \<Rightarrow> True
        | Some fullValidation \<Rightarrow>
            list_ex (\<lambda>v. v_id v = v_id fullValidation) (validationHistory st))
      \<longrightarrow> validationHistory (apply_event (Validation_INSERT i g) st) = validationHistory st)
   \<and> (list_all is_insert es \<and> distinct (map s_id (scans st))
        \<and> distinct (map v_id (validationHistory st))
      \<longrightarrow> distinct (map s_id (scans (apply_events es st)))
          \<and> distinct (map v_id (validationHistory (apply_events es st))))"
proof (intro conjI impI)
  assume "case f of None \<Rightarrow> True
          | Some fullScan \<Rightarrow> list_ex (\<lambda>s. s_id s = s_id fullScan) (scans st)"
  then show "scans (apply_event (Scans_INSERT i f) st) = scans st"
    by (simp add: scans_INSERT_def split: option.splits)
next
  assume "case g of None \<Rightarrow> True
          | Some fullValidation \<Rightarrow>
              list_ex (\<lambda>v. v_id v = v_id fullValidation) (validationHistory st)"
  then show "validationHistory (apply_event (Validation_INSERT i g) st) = validationHistory st"
    by (simp add: validation_INSERT_def split: option.splits)
next
  assume a: "list_all is_insert es \<and> distinct (map s_id (scans st))
        \<and> distinct (map v_id (validationHistory st))"
  then show "distinct (map s_id (scans (apply_events es st)))"
    using insert_events_distinct by blast
  from a show "distinct (map v_id (validationHistory (apply_events es st)))"
    using insert_events_distinct by blast
qed

theorem insert_events_keep_ids_distinct_witness:
  "scans (apply_event (Scans_INSERT (Some 2)
        (Some (example_scan 2 ''Validated'' (Some ''Healthy'') None))) small_cache)
     = scans small_cache
   \<and> validationHistory (apply_event (Validation_INSERT (Some 10)
        (Some (example_validation 10 1 ''expert-2'' ''Corrected'' ''Other''
           ''2024-01-05T00:00:00.000Z''))) small_cache) = validationHistory small_cache
   \<and> map s_id (scans (apply_events insert_burst small_cache)) = [3, 2, 1]
   \<and> map v_id (validationHistory (apply_events insert_burst small_cache)) = [11, 10]
   \<and> distinct (map s_id (scans (apply_events insert_burst small_cache)))
   \<and> distinct (map v_id (validationHistory (apply_events insert_burst small_cache)))"
  using insert_events_keep_ids_distinct
    [where f = "Some (example_scan 2 ''Validated'' (Some ''Healthy'') None)"
      and st = small_cache and i = "Some 2"
      and g = "Some (example_validation 10 1 ''expert-2'' ''Corrected'' ''Other''
           ''2024-01-05T00:00:00.000Z'')" and es = insert_burst]
  by (simp add: small_cache_def insert_burst_def example_state_def example_scan_def
      example_validation_def scans_INSERT_def validation_INSERT_def patch_scan_def or_null_def)

subsection \<open>The user count\<close>

text \<open>
  Claim C10.  Once the bulk load has happened, the profiles INSERT handler replaces the
  count \<open>n\<close> by \<open>n + 1\<close> and the profiles DELETE handler by \<open>max 0 (n - 1)\<close> (before it both
  leave the count alone), and no other change handler writes the count; so from a
  non-negative count every sequence of change events leads to a non-negative count.
\<close>

theorem totalUsers_never_negative:
  "totalUsers (profiles_INSERT st) = (if initialFetched st then totalUsers st + 1 else totalUsers st)
   \<and> totalUsers (profiles_DELETE st)
       = (if initialFetched st then max 0 (totalUsers st - 1) else totalUsers st)
   \<and> (0 \<le> totalUsers st \<longrightarrow> 0 \<le> totalUsers (apply_events es st))"
  by (simp add: profiles_INSERT_def profiles_DELETE_def totalUsers_apply_events)

theorem totalUsers_never_negative_witness:
  "totalUsers (profiles_INSERT (example_state [] [])) = 4
   \<and> totalUsers (profiles_DELETE (example_state [] [])) = 2
   \<and> 0 \<le> totalUsers (example_state [] [])
   \<and> totalUsers (apply_events profile_churn (example_state [] [])) = 0
   \<and> 0 \<le> totalUsers (apply_events profile_churn (example_state [] []))"
  using totalUsers_never_negative [of "example_state [] []" profile_churn]
  by (simp add: example_state_def profile_churn_def profiles_INSERT_def profiles_DELETE_def
      scans_DELETE_def)

subsection \<open>The activation gate of the cache component\<close>




subsection \<open>Recovery from channel errors\<close>

text \<open>
  Claim C5, as amended.  When the channel reports \<open>CHANNEL_ERROR\<close>, \<open>TIMED_OUT\<close> or
  \<open>CLOSED\<close> after the bulk load, the callback marks the subscription inactive and changes
  nothing else of the state, so scans, validation history and user count are not repaired
  in place.  What it does besides is console output followed by one call of the
  \<open>fetchData\<close> stored in \<open>fetchDataRef\<close> (stored by an effect when the provider mounts), and
  there is console output exactly in a development build.  That call, made for a signed-in
  user while no fetch is under way, replaces the scans, the validation history and the
  user count by the answers of the backend when these carry no error.
\<close>

theorem status_callback_recovery:
  assumes "status' \<noteq> SUBSCRIBED" and "initialFetched st"
  shows "fst (status_callback development name status' err st) = st\<lparr>subscriptionActive := False\<rparr>
    \<and> scans (fst (status_callback development name status' err st)) = scans st
    \<and> validationHistory (fst (status_callback development name status' err st))
        = validationHistory st
    \<and> totalUsers (fst (status_callback development name status' err st)) = totalUsers st
    \<and> (\<exists>logged. snd (status_callback development name status' err st)
                    = logged @ (case fetchDataRef st of None \<Rightarrow> []
                                | Some ready \<Rightarrow> [Call_fetchData ready False])
          \<and> list_all is_console logged \<and> (logged = [] \<longleftrightarrow> \<not> development))
    \<and> (\<not> isFetching st \<and> fetch_try r = Inr (ss, vs, n, l) \<longrightarrow>
          scans (fst (run_action r (Call_fetchData True False)
                   (fst (status_callback development name status' err st)))) = ss
          \<and> validationHistory (fst (run_action r (Call_fetchData True False)
                   (fst (status_callback development name status' err st)))) = vs
          \<and> totalUsers (fst (run_action r (Call_fetchData True False)
                   (fst (status_callback development name status' err st)))) = n)"
proof -
  have st: "fst (status_callback development name status' err st)
            = st\<lparr>subscriptionActive := False\<rparr>"
    using assms(1) by (cases status') (simp_all add: status_callback_def Let_def)
  have acts: "\<exists>logged. snd (status_callback development name status' err st)
                    = logged @ (case fetchDataRef st of None \<Rightarrow> []
                                | Some ready \<Rightarrow> [Call_fetchData ready False])
          \<and> list_all is_console logged \<and> (logged = [] \<longleftrightarrow> \<not> development)"
    using assms
    by (cases status') (simp_all add: status_callback_def Let_def refetch_fallback_def)
  have run: "\<not> isFetching st \<and> fetch_try r = Inr (ss, vs, n, l) \<longrightarrow>
          scans (fst (run_action r (Call_fetchData True False)
                   (st\<lparr>subscriptionActive := False\<rparr>))) = ss
          \<and> validationHistory (fst (run_action r (Call_fetchData True False)
                   (st\<lparr>subscriptionActive := False\<rparr>))) = vs
          \<and> totalUsers (fst (run_action r (Call_fetchData True False)
                   (st\<lparr>subscriptionActive := False\<rparr>))) = n"
    by (simp add: fetchData_def Let_def)
  show ?thesis using acts run by (simp add: st)
qed

text \<open>
  A development build receives \<open>CHANNEL_ERROR\<close> with an \<open>Error\<close> saying that Realtime is
  not enabled; the refetch then loads one scan and a user count of 12.
\<close>

theorem status_callback_recovery_witness:
  "CHANNEL_ERROR \<noteq> SUBSCRIBED \<and> initialFetched small_cache
   \<and> status_callback True ''global-data-changes-expert-1'' CHANNEL_ERROR
        (Err_Error ''Realtime not enabled'') small_cache
     = (small_cache\<lparr>subscriptionActive := False\<rparr>,
        [Console_error ''Error subscribing to real-time data changes: Realtime not enabled'',
         Console_error ''Full error object:'',
         Console_warn ''Realtime may not be enabled on your tables. Please enable Realtime on the 'scans' and 'validation_history' tables in your Supabase dashboard.'',
         Call_fetchData True False])
   \<and> fetch_try example_responses
       = Inr ([example_scan 4 ''Pending Validation'' (Some ''Healthy'') None], [], 12, [])
   \<and> scans (fst (run_action example_responses (Call_fetchData True False)
        (fst (status_callback True ''global-data-changes-expert-1'' CHANNEL_ERROR
           (Err_Error ''Realtime not enabled'') small_cache))))
     = [example_scan 4 ''Pending Validation'' (Some ''Healthy'') None]
   \<and> totalUsers (fst (run_action example_responses (Call_fetchData True False)
        (fst (status_callback True ''global-data-changes-expert-1'' CHANNEL_ERROR
           (Err_Error ''Realtime not enabled'') small_cache)))) = 12"
proof -
  have h1: "CHANNEL_ERROR \<noteq> SUBSCRIBED" by simp
  have h2: "initialFetched small_cache" by (simp add: small_cache_def example_state_def)
  have h3: "fetchDataRef small_cache = Some True"
    by (simp add: small_cache_def example_state_def)
  have h4: "\<not> isFetching small_cache" by (simp add: small_cache_def example_state_def)
  have h5: "fetch_try example_responses
       = Inr ([example_scan 4 ''Pending Validation'' (Some ''Healthy'') None], [], 12, [])"
    by (simp add: fetch_try_def example_responses_def missingExpertIds_def)
  have cb: "status_callback True ''global-data-changes-expert-1'' CHANNEL_ERROR
        (Err_Error ''Realtime not enabled'') small_cache
     = (small_cache\<lparr>subscriptionActive := False\<rparr>,
        [Console_error ''Error subscribing to real-time data changes: Realtime not enabled'',
         Console_error ''Full error object:'',
         Console_warn ''Realtime may not be enabled on your tables. Please enable Realtime on the 'scans' and 'validation_history' tables in your Supabase dashboard.'',
         Call_fetchData True False])"
    using h2 h3
    by (simp add: status_callback_def refetch_fallback_def mentions_realtime_def
        toLowerCase_def lower_char_def)
  from status_callback_recovery [OF h1 h2, of True "''global-data-changes-expert-1''"
      "Err_Error ''Realtime not enabled''" example_responses
      "[example_scan 4 ''Pending Validation'' (Some ''Healthy'') None]" "[]" 12 "[]"]
    h4 h5
  have "scans (fst (run_action example_responses (Call_fetchData True False)
        (fst (status_callback True ''global-data-changes-expert-1'' CHANNEL_ERROR
           (Err_Error ''Realtime not enabled'') small_cache))))
     = [example_scan 4 ''Pending Validation'' (Some ''Healthy'') None]
   \<and> totalUsers (fst (run_action example_responses (Call_fetchData True False)
        (fst (status_callback True ''global-data-changes-expert-1'' CHANNEL_ERROR
           (Err_Error ''Realtime not enabled'') small_cache)))) = 12"
    by blast
  with h1 h2 h5 cb show ?thesis by blast
qed

text \<open>
  Against the claim as written: outside a development build nothing is logged; the
  callback only calls \<open>fetchData\<close>.
\<close>

theorem production_build_does_not_log:
  "initialFetched (example_state [] [])
   \<and> snd (status_callback False ''global-data-changes-expert-1'' CLOSED No_err
            (example_state [] [])) = [Call_fetchData True False]
   \<and> \<not> list_ex is_console
         (snd (status_callback False ''global-data-changes-expert-1'' CHANNEL_ERROR
            (Err_Error ''realtime not enabled'') (example_state [] [])))"
  by (simp add: status_callback_def example_state_def refetch_fallback_def)

subsection \<open>Ownership checks of the history page\<close>

text \<open>
  Claim C3.  When the signed-in user's id differs from the \<open>expert_id\<close> of the selected
  record, \<open>handleEdit\<close> and \<open>handleDelete\<close> only show an error toast: they send no write to
  the backend, so neither the validation row nor its scan changes.  Whenever either
  handler does send a write, a user is signed in and the selected record carries that
  user's id; and when the ids match the first thing the handler does is the write on the
  row.
\<close>

theorem edit_delete_owner_only:
  "(user = Some u \<and> at_index filtered idx = Some row
      \<and> expert_id row \<noteq> Some (user_id u) \<longrightarrow>
      (editIdx pg = Some idx \<longrightarrow>
         handleEdit user filtered updateError now pg
           = (pg, [Toast_error ''You can only edit your own validations.'']))
      \<and> (deleteIdx pg = Some idx \<longrightarrow>
         handleDelete user filtered deleteError now pg
           = (pg\<lparr>deleteIdx := None\<rparr>,
              [Toast_error ''You can only delete your own validations.''])))
   \<and> (list_ex is_remote_write (snd (handleEdit user filtered updateError now pg)) \<longrightarrow>
        (\<exists>u idx row. user = Some u \<and> editIdx pg = Some idx
           \<and> at_index filtered idx = Some row \<and> expert_id row = Some (user_id u)))
   \<and> (list_ex is_remote_write (snd (handleDelete user filtered deleteError now pg)) \<longrightarrow>
        (\<exists>u idx row. user = Some u \<and> deleteIdx pg = Some idx
           \<and> at_index filtered idx = Some row \<and> expert_id row = Some (user_id u)))
   \<and> (user = Some u \<and> at_index filtered idx = Some row
      \<and> expert_id row = Some (user_id u) \<longrightarrow>
      (editIdx pg = Some idx \<longrightarrow>
         hd (snd (handleEdit user filtered updateError now pg))
           = History_update_by_id (v_id row) (editForm_expert_validation pg)
               (editForm_status pg))
      \<and> (deleteIdx pg = Some idx \<longrightarrow>
         hd (snd (handleDelete user filtered deleteError now pg))
           = History_delete (v_id row)))"
  by (auto simp: handleEdit_def handleDelete_def Let_def split: option.splits if_splits)

text \<open>
  The record of expert 1 on scan 1, first handled by expert 2 and then by expert 1.
\<close>

theorem edit_delete_owner_only_witness:
  "at_index (validationHistory small_cache) 0
     = Some (example_validation 10 1 ''expert-1'' ''Validated'' ''Healthy''
         ''2024-01-02T00:00:00.000Z'')
   \<and> handleEdit (Some \<lparr>user_id = ''expert-2''\<rparr>) (validationHistory small_cache) None
        ''2024-02-01T10:00:00.000Z'' example_history_page
      = (example_history_page, [Toast_error ''You can only edit your own validations.''])
   \<and> handleDelete (Some \<lparr>user_id = ''expert-2''\<rparr>) (validationHistory small_cache) None
        ''2024-02-01T10:00:00.000Z'' example_history_page
      = (example_history_page\<lparr>deleteIdx := None\<rparr>,
         [Toast_error ''You can only delete your own validations.''])
   \<and> list_ex is_remote_write (snd (handleEdit (Some \<lparr>user_id = ''expert-1''\<rparr>)
        (validationHistory small_cache) None ''2024-02-01T10:00:00.000Z'' example_history_page))
   \<and> list_ex is_remote_write (snd (handleDelete (Some \<lparr>user_id = ''expert-1''\<rparr>)
        (validationHistory small_cache) None ''2024-02-01T10:00:00.000Z'' example_history_page))
   \<and> hd (snd (handleEdit (Some \<lparr>user_id = ''expert-1''\<rparr>)
        (validationHistory small_cache) None ''2024-02-01T10:00:00.000Z'' example_history_page))
      = History_update_by_id 10 ''Fusarium Wilt'' ''Corrected''
   \<and> hd (snd (handleDelete (Some \<lparr>user_id = ''expert-1''\<rparr>)
        (validationHistory small_cache) None ''2024-02-01T10:00:00.000Z'' example_history_page))
      = History_delete 10"
proof -
  let ?rec = "example_validation 10 1 ''expert-1'' ''Validated'' ''Healthy''
         ''2024-01-02T00:00:00.000Z''"
  let ?now = "''2024-02-01T10:00:00.000Z''"
  have at: "at_index (validationHistory small_cache) 0 = Some ?rec"
    by (simp add: at_index_def small_cache_def example_state_def)
  have other: "expert_id ?rec \<noteq> Some (user_id \<lparr>user_id = ''expert-2''\<rparr>)"
    by (simp add: example_validation_def)
  have own: "expert_id ?rec = Some (user_id \<lparr>user_id = ''expert-1''\<rparr>)"
    by (simp add: example_validation_def)
  have idx: "editIdx example_history_page = Some 0" "deleteIdx example_history_page = Some 0"
    by (simp_all add: example_history_page_def)
  have w1: "list_ex is_remote_write (snd (handleEdit (Some \<lparr>user_id = ''expert-1''\<rparr>)
        (validationHistory small_cache) None ?now example_history_page))"
    using at own idx by (simp add: handleEdit_def example_validation_def)
  have w2: "list_ex is_remote_write (snd (handleDelete (Some \<lparr>user_id = ''expert-1''\<rparr>)
        (validationHistory small_cache) None ?now example_history_page))"
    using at own idx by (simp add: handleDelete_def example_validation_def)
  from edit_delete_owner_only [where user = "Some \<lparr>user_id = ''expert-2''\<rparr>"
      and u = "\<lparr>user_id = ''expert-2''\<rparr>" and filtered = "validationHistory small_cache"
      and idx = 0 and row = "?rec" and pg = example_history_page and updateError = None
      and deleteError = None and now = "?now"] at other idx
  have a: "handleEdit (Some \<lparr>user_id = ''expert-2''\<rparr>) (validationHistory small_cache) None
        ?now example_history_page
      = (example_history_page, [Toast_error ''You can only edit your own validations.''])
   \<and> handleDelete (Some \<lparr>user_id = ''expert-2''\<rparr>) (validationHistory small_cache) None
        ?now example_history_page
      = (example_history_page\<lparr>deleteIdx := None\<rparr>,
         [Toast_error ''You can only delete your own validations.''])"
    by blast
  from edit_delete_owner_only [where user = "Some \<lparr>user_id = ''expert-1''\<rparr>"
      and u = "\<lparr>user_id = ''expert-1''\<rparr>" and filtered = "validationHistory small_cache"
      and idx = 0 and row = "?rec" and pg = example_history_page and updateError = None
      and deleteError = None and now = "?now"] at own idx
  have b: "hd (snd (handleEdit (Some \<lparr>user_id = ''expert-1''\<rparr>)
        (validationHistory small_cache) None ?now example_history_page))
      = History_update_by_id (v_id ?rec) (editForm_expert_validation example_history_page)
          (editForm_status example_history_page)
   \<and> hd (snd (handleDelete (Some \<lparr>user_id = ''expert-1''\<rparr>)
        (validationHistory small_cache) None ?now example_history_page))
      = History_delete (v_id ?rec)"
    by blast
  have c: "v_id ?rec = 10" "editForm_expert_validation example_history_page = ''Fusarium Wilt''"
    "editForm_status example_history_page = ''Corrected''"
    by (simp_all add: example_validation_def example_history_page_def)
  from at a b w1 w2 show ?thesis unfolding c by blast
qed

subsection \<open>What a validation writes\<close>

text \<open>
  Claim C2, as amended.  Let a signed-in expert act on a cached scan that is not being
  processed, and let both writes go through.  On confirm, if the scan's AI prediction is
  not empty, the handler inserts a validation record with status \<open>Validated\<close> and
  \<open>expert_validation\<close> equal to that prediction; on correct, if the selected label is not
  blank, it inserts a record with status \<open>Corrected\<close> and \<open>expert_validation\<close> equal to the
  label without surrounding white space.  In both cases the scan was first updated to the
  same status, with \<open>updated_at\<close> equal to the record's \<open>validated_at\<close>.
\<close>

theorem validation_records_decision:
  assumes "processingScanId pg \<noteq> Some scanId"
    and "find (\<lambda>scan. s_id scan = scanId) scans' = Some selectedScan"
    and "signed_in_id user = Some uid"
    and "scanUpdateError out = None" and "historyInsertError out = None"
  shows "(ai_prediction selectedScan = Some p \<and> p \<noteq> [] \<longrightarrow>
            snd (handleValidation scanId Confirm scans' user out timestamp rollbackTime pg)
              = [Scans_update scanId \<lparr>p_status = ''Validated'', p_expert_comment = None,
                   p_updated_at = timestamp\<rparr>,
                 History_insert \<lparr>h_scan_id = scanId, h_expert_id = uid,
                   h_ai_prediction = Some p, h_expert_validation = p,
                   h_status = ''Validated'', h_validated_at = timestamp,
                   h_expert_comment = trimmed_or_null (notes pg scanId)\<rparr>,
                 Toast_success (''Validation for scan '' @ toString scanId @ '' confirmed''),
                 Call_removeScanFromState scanId, Call_refreshData])
         \<and> (decision pg scanId = Some label \<and> trim label \<noteq> [] \<longrightarrow>
            snd (handleValidation scanId Correct scans' user out timestamp rollbackTime pg)
              = [Scans_update scanId \<lparr>p_status = ''Corrected'', p_expert_comment = None,
                   p_updated_at = timestamp\<rparr>,
                 History_insert \<lparr>h_scan_id = scanId, h_expert_id = uid,
                   h_ai_prediction = ai_prediction selectedScan,
                   h_expert_validation = trim label,
                   h_status = ''Corrected'', h_validated_at = timestamp,
                   h_expert_comment = trimmed_or_null (notes pg scanId)\<rparr>,
                 Toast_success (''Validation for scan '' @ toString scanId @ '' corrected''),
                 Call_removeScanFromState scanId, Call_refreshData])"
  using assms trim_nonempty [of label]
  by (auto simp: handleValidation_def Let_def corrected_of_def expertValidation_of_def
      status_of_def updatePayload_of_def insertPayload_of_def successMessage_def
      trimmed_or_null_def)

text \<open>
  Expert 1 confirms scan 6, predicted \<open>Healthy\<close>, and corrects it with the label
  \<open>Downy Mildew\<close> and a note that starts with a no-break space (U+00A0) and a space and
  ends with a space.  A label that is a no-break space alone is refused.
\<close>

theorem validation_records_decision_witness:
  "snd (handleValidation 6 Confirm [pending_scan] (Some \<lparr>user_id = ''expert-1''\<rparr>)
         (example_outcomes None None) ''2024-02-01T10:00:00.000Z''
         ''2024-02-01T10:00:01.000Z'' example_page)
     = [Scans_update 6 \<lparr>p_status = ''Validated'', p_expert_comment = None,
          p_updated_at = ''2024-02-01T10:00:00.000Z''\<rparr>,
        History_insert \<lparr>h_scan_id = 6, h_expert_id = ''expert-1'',
          h_ai_prediction = Some ''Healthy'', h_expert_validation = ''Healthy'',
          h_status = ''Validated'', h_validated_at = ''2024-02-01T10:00:00.000Z'',
          h_expert_comment = None\<rparr>,
        Toast_success ''Validation for scan 6 confirmed'',
        Call_removeScanFromState 6, Call_refreshData]
   \<and> snd (handleValidation 6 Correct [pending_scan] (Some \<lparr>user_id = ''expert-1''\<rparr>)
         (example_outcomes None None) ''2024-02-01T10:00:00.000Z''
         ''2024-02-01T10:00:01.000Z''
         (example_page\<lparr>decision := [6 \<mapsto> ''Downy Mildew''],
            notes := [6 \<mapsto> CHR 0xC2 # CHR 0xA0 # '' spots on the lower leaves '']\<rparr>))
     = [Scans_update 6 \<lparr>p_status = ''Corrected'', p_expert_comment = None,
          p_updated_at = ''2024-02-01T10:00:00.000Z''\<rparr>,
        History_insert \<lparr>h_scan_id = 6, h_expert_id = ''expert-1'',
          h_ai_prediction = Some ''Healthy'', h_expert_validation = ''Downy Mildew'',
          h_status = ''Corrected'', h_validated_at = ''2024-02-01T10:00:00.000Z'',
          h_expert_comment = Some ''spots on the lower leaves''\<rparr>,
        Toast_success ''Validation for scan 6 corrected'',
        Call_removeScanFromState 6, Call_refreshData]
   \<and> trim [CHR 0xC2, CHR 0xA0] = []
   \<and> snd (handleValidation 6 Correct [pending_scan] (Some \<lparr>user_id = ''expert-1''\<rparr>)
         (example_outcomes None None) ''2024-02-01T10:00:00.000Z''
         ''2024-02-01T10:00:01.000Z''
         (example_page\<lparr>decision := [6 \<mapsto> [CHR 0xC2, CHR 0xA0]]\<rparr>))
     = [Toast_error ''Please select or enter the corrected result.'']"
proof -
  let ?user = "Some \<lparr>user_id = ''expert-1''\<rparr>"
  let ?pg = "example_page\<lparr>decision := [6 \<mapsto> ''Downy Mildew''],
            notes := [6 \<mapsto> CHR 0xC2 # CHR 0xA0 # '' spots on the lower leaves '']\<rparr>"
  have h1: "processingScanId example_page \<noteq> Some 6" "processingScanId ?pg \<noteq> Some 6"
    by (simp_all add: example_page_def)
  have h2: "find (\<lambda>scan. s_id scan = 6) [pending_scan] = Some pending_scan"
    by (simp add: pending_scan_def example_scan_def)
  have h3: "signed_in_id ?user = Some ''expert-1''"
    by (simp add: signed_in_id_def)
  have h4: "scanUpdateError (example_outcomes None None) = None"
    "historyInsertError (example_outcomes None None) = None"
    by (simp_all add: example_outcomes_def)
  have p: "ai_prediction pending_scan = Some ''Healthy''" "''Healthy'' \<noteq> []"
    by (simp_all add: pending_scan_def example_scan_def)
  have l: "decision ?pg 6 = Some ''Downy Mildew''" "trim ''Downy Mildew'' = ''Downy Mildew''"
    by (simp_all add: trim_def white_space_defs)
  have n: "trimmed_or_null (notes example_page 6) = None"
    "trimmed_or_null (Some (CHR 0xC2 # CHR 0xA0 # '' spots on the lower leaves ''))
       = Some ''spots on the lower leaves''"
    by (simp_all add: example_page_def trimmed_or_null_def trim_def white_space_defs)
  have t: "toString 6 = ''6''"
    by code_simp
  have nbsp: "trim [CHR 0xC2, CHR 0xA0] = []"
    by (simp add: trim_def white_space_defs)
  from validation_records_decision [OF h1(1) h2 h3 h4, where p = "''Healthy''"
      and label = "''Downy Mildew''" and timestamp = "''2024-02-01T10:00:00.000Z''"
      and rollbackTime = "''2024-02-01T10:00:01.000Z''"] p
  have a: "snd (handleValidation 6 Confirm [pending_scan] ?user
         (example_outcomes None None) ''2024-02-01T10:00:00.000Z''
         ''2024-02-01T10:00:01.000Z'' example_page)
     = [Scans_update 6 \<lparr>p_status = ''Validated'', p_expert_comment = None,
          p_updated_at = ''2024-02-01T10:00:00.000Z''\<rparr>,
        History_insert \<lparr>h_scan_id = 6, h_expert_id = ''expert-1'',
          h_ai_prediction = Some ''Healthy'', h_expert_validation = ''Healthy'',
          h_status = ''Validated'', h_validated_at = ''2024-02-01T10:00:00.000Z'',
          h_expert_comment = None\<rparr>,
        Toast_success ''Validation for scan 6 confirmed'',
        Call_removeScanFromState 6, Call_refreshData]"
    by (simp add: n t)
  from validation_records_decision [OF h1(2) h2 h3 h4, where p = "''Healthy''"
      and label = "''Downy Mildew''" and timestamp = "''2024-02-01T10:00:00.000Z''"
      and rollbackTime = "''2024-02-01T10:00:01.000Z''"] l p
  have b: "snd (handleValidation 6 Correct [pending_scan] ?user
         (example_outcomes None None) ''2024-02-01T10:00:00.000Z''
         ''2024-02-01T10:00:01.000Z'' ?pg)
     = [Scans_update 6 \<lparr>p_status = ''Corrected'', p_expert_comment = None,
          p_updated_at = ''2024-02-01T10:00:00.000Z''\<rparr>,
        History_insert \<lparr>h_scan_id = 6, h_expert_id = ''expert-1'',
          h_ai_prediction = Some ''Healthy'', h_expert_validation = ''Downy Mildew'',
          h_status = ''Corrected'', h_validated_at = ''2024-02-01T10:00:00.000Z'',
          h_expert_comment = Some ''spots on the lower leaves''\<rparr>,
        Toast_success ''Validation for scan 6 corrected'',
        Call_removeScanFromState 6, Call_refreshData]"
    by (simp add: n t)
  have c: "snd (handleValidation 6 Correct [pending_scan] ?user
         (example_outcomes None None) ''2024-02-01T10:00:00.000Z''
         ''2024-02-01T10:00:01.000Z''
         (example_page\<lparr>decision := [6 \<mapsto> [CHR 0xC2, CHR 0xA0]]\<rparr>))
     = [Toast_error ''Please select or enter the corrected result.'']"
    using h2 h3
    by (simp add: handleValidation_def example_page_def corrected_of_def trimmed_or_null_def
        nbsp)
  from a b c nbsp show ?thesis by blast
qed

text \<open>
  Against the claim as written: a pending scan whose AI prediction is empty.  The
  signed-in expert confirms it; the handler shows an error toast and writes nothing.
\<close>

theorem confirm_without_prediction_creates_nothing:
  "status unpredicted_scan = ''Pending Validation''
   \<and> handleValidation 5 Confirm [unpredicted_scan] (Some \<lparr>user_id = ''expert-1''\<rparr>)
       (example_outcomes None None) ''2024-02-01T10:00:00.000Z'' ''2024-02-01T10:00:01.000Z''
       example_page
     = (example_page, [Toast_error ''Unable to determine validation result.''])"
  by (simp add: unpredicted_scan_def example_scan_def handleValidation_def signed_in_id_def
      example_page_def expertValidation_of_def corrected_of_def trimmed_or_null_def)

subsection \<open>Failure of the history insert\<close>

text \<open>
  Claim C9, as amended.  Suppose the update of the scan went through and the insert of the
  validation record failed.  If the error is not the duplicate-key error \<open>23505\<close>, the
  handler logs the insert error on the console, then sends an update that sets the scan's
  status to the value the cache held for it before the validation, and only then reports
  the failed validation, on the console and in an error toast; when that update fails,
  this is logged and nothing else is done about it.  If the error is \<open>23505\<close>, the handler
  instead updates the validation row of that scan and expert with the payload of the
  insert; when that update goes through the validation succeeds, and when it fails the
  handler sends the rollback and reports in the same way.
\<close>

theorem insert_failure_rolls_back:
  assumes "processingScanId pg \<noteq> Some scanId"
    and "find (\<lambda>scan. s_id scan = scanId) scans' = Some selectedScan"
    and "signed_in_id user = Some uid"
    and "\<not> (action = Correct \<and> corrected_of pg scanId = [])"
    and "truthy_str (expertValidation_of action selectedScan (corrected_of pg scanId))"
    and "scanUpdateError out = None"
    and "historyInsertError out = Some historyError"
  shows "(t_code historyError \<noteq> Some ''23505'' \<longrightarrow>
           snd (handleValidation scanId action scans' user out timestamp rollbackTime pg)
             = [Scans_update scanId (updatePayload_of action timestamp),
                History_insert (insertPayload_of scanId action selectedScan uid timestamp pg),
                Log_error [''Error creating validation history:''],
                Scans_update scanId \<lparr>p_status = status selectedScan, p_expert_comment = None,
                  p_updated_at = rollbackTime\<rparr>]
               @ (case rollbackError out of
                    Some e \<Rightarrow> [Log_error [''Failed to rollback scan update:'']]
                  | None \<Rightarrow> [])
               @ [Log_error
                    [if action = Confirm then ''Error confirming validation:''
                     else ''Error correcting validation:'',
                     buildSupabaseErrorMessage
                       (if t_isSupabaseApiError historyError then Some historyError else None)],
                  Toast_error (if action = Confirm then ''Failed to confirm validation''
                               else ''Failed to correct validation'')])
         \<and> (t_code historyError = Some ''23505'' \<longrightarrow>
           snd (handleValidation scanId action scans' user out timestamp rollbackTime pg)
             = [Scans_update scanId (updatePayload_of action timestamp),
                History_insert (insertPayload_of scanId action selectedScan uid timestamp pg),
                History_update_for scanId uid
                  (insertPayload_of scanId action selectedScan uid timestamp pg)]
               @ (case historyUpdateError out of
                    None \<Rightarrow>
                      [Toast_success (successMessage action scanId),
                       Call_removeScanFromState scanId, Call_refreshData]
                  | Some updateHistoryError \<Rightarrow>
                      Log_error [''Error updating validation history:'']
                      # validation_catch scanId action True (status selectedScan) rollbackTime
                          (rollbackError out) updateHistoryError))"
  using assms
  by (auto simp: handleValidation_def Let_def validation_catch_def split: option.splits)

text \<open>
  Expert 1 confirms the pending scan 6; the insert fails once with a foreign-key error and
  once with the duplicate-key error.
\<close>

theorem insert_failure_rolls_back_witness:
  "snd (handleValidation 6 Confirm [pending_scan] (Some \<lparr>user_id = ''expert-1''\<rparr>)
         (example_outcomes (Some (example_error ''23503'')) None)
         ''2024-02-01T10:00:00.000Z'' ''2024-02-01T10:00:01.000Z'' example_page)
     = [Scans_update 6 \<lparr>p_status = ''Validated'', p_expert_comment = None,
          p_updated_at = ''2024-02-01T10:00:00.000Z''\<rparr>,
        History_insert \<lparr>h_scan_id = 6, h_expert_id = ''expert-1'',
          h_ai_prediction = Some ''Healthy'', h_expert_validation = ''Healthy'',
          h_status = ''Validated'', h_validated_at = ''2024-02-01T10:00:00.000Z'',
          h_expert_comment = None\<rparr>,
        Log_error [''Error creating validation history:''],
        Scans_update 6 \<lparr>p_status = ''Pending Validation'', p_expert_comment = None,
          p_updated_at = ''2024-02-01T10:00:01.000Z''\<rparr>,
        Log_error [''Error confirming validation:'', ''request failed''],
        Toast_error ''Failed to confirm validation'']
   \<and> snd (handleValidation 6 Confirm [pending_scan] (Some \<lparr>user_id = ''expert-1''\<rparr>)
         (example_outcomes (Some (example_error ''23505'')) None)
         ''2024-02-01T10:00:00.000Z'' ''2024-02-01T10:00:01.000Z'' example_page)
     = [Scans_update 6 \<lparr>p_status = ''Validated'', p_expert_comment = None,
          p_updated_at = ''2024-02-01T10:00:00.000Z''\<rparr>,
        History_insert \<lparr>h_scan_id = 6, h_expert_id = ''expert-1'',
          h_ai_prediction = Some ''Healthy'', h_expert_validation = ''Healthy'',
          h_status = ''Validated'', h_validated_at = ''2024-02-01T10:00:00.000Z'',
          h_expert_comment = None\<rparr>,
        History_update_for 6 ''expert-1'' \<lparr>h_scan_id = 6, h_expert_id = ''expert-1'',
          h_ai_prediction = Some ''Healthy'', h_expert_validation = ''Healthy'',
          h_status = ''Validated'', h_validated_at = ''2024-02-01T10:00:00.000Z'',
          h_expert_comment = None\<rparr>,
        Toast_success ''Validation for scan 6 confirmed'',
        Call_removeScanFromState 6, Call_refreshData]"
proof -
  let ?user = "Some \<lparr>user_id = ''expert-1''\<rparr>"
  let ?t = "''2024-02-01T10:00:00.000Z''"
  let ?rb = "''2024-02-01T10:00:01.000Z''"
  have h1: "processingScanId example_page \<noteq> Some 6"
    by (simp add: example_page_def)
  have h2: "find (\<lambda>scan. s_id scan = 6) [pending_scan] = Some pending_scan"
    by (simp add: pending_scan_def example_scan_def)
  have h3: "signed_in_id ?user = Some ''expert-1''"
    by (simp add: signed_in_id_def)
  have h4: "\<not> (Confirm = Correct \<and> corrected_of example_page 6 = [])"
    by simp
  have h5: "truthy_str (expertValidation_of Confirm pending_scan (corrected_of example_page 6))"
    by (simp add: expertValidation_of_def pending_scan_def example_scan_def)
  have h6: "scanUpdateError (example_outcomes (Some (example_error c)) None) = None" for c
    by (simp add: example_outcomes_def)
  have h7: "historyInsertError (example_outcomes (Some (example_error c)) None)
            = Some (example_error c)" for c
    by (simp add: example_outcomes_def)
  have t: "toString 6 = ''6''"
    by code_simp
  have vals: "updatePayload_of Confirm ?t = \<lparr>p_status = ''Validated'', p_expert_comment = None,
          p_updated_at = ?t\<rparr>"
    "insertPayload_of 6 Confirm pending_scan ''expert-1'' ?t example_page
       = \<lparr>h_scan_id = 6, h_expert_id = ''expert-1'',
          h_ai_prediction = Some ''Healthy'', h_expert_validation = ''Healthy'',
          h_status = ''Validated'', h_validated_at = ?t, h_expert_comment = None\<rparr>"
    "status pending_scan = ''Pending Validation''"
    "successMessage Confirm 6 = ''Validation for scan 6 confirmed''"
    "rollbackError (example_outcomes (Some (example_error c)) None) = None"
    "historyUpdateError (example_outcomes (Some (example_error c)) None) = None"
    "buildSupabaseErrorMessage (Some (example_error c)) = ''request failed''"
    "t_isSupabaseApiError (example_error c)"
    "t_code (example_error c) = Some c" for c
    by (simp_all add: updatePayload_of_def insertPayload_of_def status_of_def
        expertValidation_of_def pending_scan_def example_scan_def example_page_def
        trimmed_or_null_def successMessage_def t example_outcomes_def
        buildSupabaseErrorMessage_def example_error_def)
  from insert_failure_rolls_back [OF h1 h2 h3 h4 h5 h6 [of "''23503''"] h7 [of "''23503''"],
      where timestamp = "?t" and rollbackTime = "?rb"]
  have a: "snd (handleValidation 6 Confirm [pending_scan] ?user
         (example_outcomes (Some (example_error ''23503'')) None) ?t ?rb example_page)
     = [Scans_update 6 \<lparr>p_status = ''Validated'', p_expert_comment = None,
          p_updated_at = ?t\<rparr>,
        History_insert \<lparr>h_scan_id = 6, h_expert_id = ''expert-1'',
          h_ai_prediction = Some ''Healthy'', h_expert_validation = ''Healthy'',
          h_status = ''Validated'', h_validated_at = ?t, h_expert_comment = None\<rparr>,
        Log_error [''Error creating validation history:''],
        Scans_update 6 \<lparr>p_status = ''Pending Validation'', p_expert_comment = None,
          p_updated_at = ?rb\<rparr>,
        Log_error [''Error confirming validation:'', ''request failed''],
        Toast_error ''Failed to confirm validation'']"
    by (simp add: vals)
  from insert_failure_rolls_back [OF h1 h2 h3 h4 h5 h6 [of "''23505''"] h7 [of "''23505''"],
      where timestamp = "?t" and rollbackTime = "?rb"]
  have b: "snd (handleValidation 6 Confirm [pending_scan] ?user
         (example_outcomes (Some (example_error ''23505'')) None) ?t ?rb example_page)
     = [Scans_update 6 \<lparr>p_status = ''Validated'', p_expert_comment = None,
          p_updated_at = ?t\<rparr>,
        History_insert \<lparr>h_scan_id = 6, h_expert_id = ''expert-1'',
          h_ai_prediction = Some ''Healthy'', h_expert_validation = ''Healthy'',
          h_status = ''Validated'', h_validated_at = ?t, h_expert_comment = None\<rparr>,
        History_update_for 6 ''expert-1'' \<lparr>h_scan_id = 6, h_expert_id = ''expert-1'',
          h_ai_prediction = Some ''Healthy'', h_expert_validation = ''Healthy'',
          h_status = ''Validated'', h_validated_at = ?t, h_expert_comment = None\<rparr>,
        Toast_success ''Validation for scan 6 confirmed'',
        Call_removeScanFromState 6, Call_refreshData]"
    by (simp add: vals)
  from a b show ?thesis by blast
qed

text \<open>
  Against the claim as written: expert 1 confirms the pending scan 6, the insert fails
  with a foreign-key error and the backend answers the rollback with an error too.  The
  insert error is on the console before the rollback is sent, the rollback does not go
  through, so the scan stays \<open>Validated\<close>, and the failure is reported all the same.
\<close>

theorem failed_rollback_is_only_logged:
  "scanUpdateError (example_outcomes (Some (example_error ''23503''))
       (Some (example_error ''57014''))) = None
   \<and> rollbackError (example_outcomes (Some (example_error ''23503''))
       (Some (example_error ''57014''))) = Some (example_error ''57014'')
   \<and> status pending_scan = ''Pending Validation''
   \<and> snd (handleValidation 6 Confirm [pending_scan] (Some \<lparr>user_id = ''expert-1''\<rparr>)
         (example_outcomes (Some (example_error ''23503'')) (Some (example_error ''57014'')))
         ''2024-02-01T10:00:00.000Z'' ''2024-02-01T10:00:01.000Z'' example_page)
     = [Scans_update 6 \<lparr>p_status = ''Validated'', p_expert_comment = None,
          p_updated_at = ''2024-02-01T10:00:00.000Z''\<rparr>,
        History_insert \<lparr>h_scan_id = 6, h_expert_id = ''expert-1'',
          h_ai_prediction = Some ''Healthy'', h_expert_validation = ''Healthy'',
          h_status = ''Validated'', h_validated_at = ''2024-02-01T10:00:00.000Z'',
          h_expert_comment = None\<rparr>,
        Log_error [''Error creating validation history:''],
        Scans_update 6 \<lparr>p_status = ''Pending Validation'', p_expert_comment = None,
          p_updated_at = ''2024-02-01T10:00:01.000Z''\<rparr>,
        Log_error [''Failed to rollback scan update:''],
        Log_error [''Error confirming validation:'', ''request failed''],
        Toast_error ''Failed to confirm validation'']"
  by (simp add: handleValidation_def validation_catch_def example_outcomes_def
      example_error_def pending_scan_def example_scan_def example_page_def signed_in_id_def
      corrected_of_def expertValidation_of_def trimmed_or_null_def updatePayload_of_def
      insertPayload_of_def status_of_def buildSupabaseErrorMessage_def)

subsection \<open>Rounding to doubles\<close>

lemma round_half_even_bound: "\<bar>of_int (round_half_even y) - y\<bar> \<le> 1 / 2"
  unfolding round_half_even_def Let_def by (auto simp: abs_if) linarith+

lemma powi_nat: "0 \<le> b \<Longrightarrow> (2::real) powi b = 2 ^ nat b"
  by (simp add: power_int_def)

lemma binade_bounds:
  assumes "0 < x"
  shows "2 powi binade x \<le> x \<and> x < 2 powi (binade x + 1)"
proof (cases "1 \<le> x")
  case True
  define n where "n = \<lfloor>x\<rfloor>"
  define b where "b = bitlen n"
  have n: "0 < n" "of_int n \<le> x" "x < of_int n + 1"
    using True unfolding n_def by linarith+
  from bitlen_bounds [OF n(1)] have bb: "2 ^ nat (b - 1) \<le> n" "n < 2 ^ nat b"
    by (simp_all add: b_def)
  have b1: "1 \<le> b"
    using n(1) bitlen_eq_zero_iff [of n] bitlen_nonneg [of n] unfolding b_def by linarith
  have "(2::real) ^ nat (b - 1) \<le> of_int n"
    using bb(1) by simp
  then have lo: "(2::real) ^ nat (b - 1) \<le> x" using n(2) by linarith
  have "n + 1 \<le> 2 ^ nat b" using bb(2) by simp
  then have "real_of_int (n + 1) \<le> 2 ^ nat b"
    by (simp only: of_int_le_numeral_power_cancel_iff)
  then have hi: "x < (2::real) ^ nat b" using n(3) by simp
  have "binade x = b - 1" using True by (simp add: binade_def b_def n_def)
  then show ?thesis using lo hi b1 by (simp add: powi_nat)
next
  case False
  define y where "y = 1 / x"
  define m where "m = \<lceil>y\<rceil> - 1"
  define b where "b = bitlen m"
  have y: "1 < y" using False assms by (simp add: y_def)
  have m: "0 < m" "of_int m < y" "y \<le> of_int m + 1"
    using y unfolding m_def by linarith+
  from bitlen_bounds [OF m(1)] have bb: "2 ^ nat (b - 1) \<le> m" "m < 2 ^ nat b"
    by (simp_all add: b_def)
  have b1: "1 \<le> b"
    using m(1) bitlen_eq_zero_iff [of m] bitlen_nonneg [of m] unfolding b_def by linarith
  have "(2::real) ^ nat (b - 1) \<le> of_int m"
    using bb(1) by simp
  then have lo: "(2::real) ^ nat (b - 1) < y" using m(2) by linarith
  have "m + 1 \<le> 2 ^ nat b" using bb(2) by simp
  then have "real_of_int (m + 1) \<le> 2 ^ nat b"
    by (simp only: of_int_le_numeral_power_cancel_iff)
  then have hi: "y \<le> (2::real) ^ nat b" using m(3) by simp
  have e: "binade x = - b" using False by (simp add: binade_def b_def m_def y_def)
  have "1 / (2::real) ^ nat b \<le> x"
    using hi assms by (simp add: y_def field_simps)
  then have 1: "2 powi (- b) \<le> x"
    using b1 by (simp add: power_int_minus_divide powi_nat)
  have "x < 1 / (2::real) ^ nat (b - 1)"
    using lo assms by (simp add: y_def field_simps)
  moreover have "(2::real) powi (- b + 1) = 1 / 2 ^ nat (b - 1)"
    using b1 power_int_minus_divide [of "2::real" "b - 1"] by (simp add: powi_nat)
  ultimately have 2: "x < 2 powi (- b + 1)" by simp
  from 1 2 e show ?thesis by simp
qed

lemma binade_eqI:
  assumes "2 powi e \<le> x" and "x < 2 powi (e + 1)"
  shows "binade x = e"
proof -
  have "0 < (2::real) powi e" by simp
  with assms(1) have "0 < x" by linarith
  from binade_bounds [OF this]
  have b: "2 powi binade x \<le> x" "x < 2 powi (binade x + 1)" by simp_all
  have lt1: "(2::real) powi e < 2 powi (binade x + 1)" using assms(1) b(2) by linarith
  have 1: "e < binade x + 1"
  proof (rule ccontr)
    assume "\<not> e < binade x + 1"
    then have "binade x + 1 \<le> e" by simp
    then have "(2::real) powi (binade x + 1) \<le> 2 powi e"
      by (intro power_int_increasing) simp_all
    with lt1 show False by linarith
  qed
  have lt2: "(2::real) powi binade x < 2 powi (e + 1)" using assms(2) b(1) by linarith
  have 2: "binade x < e + 1"
  proof (rule ccontr)
    assume "\<not> binade x < e + 1"
    then have "e + 1 \<le> binade x" by simp
    then have "(2::real) powi (e + 1) \<le> 2 powi binade x"
      by (intro power_int_increasing) simp_all
    with lt2 show False by linarith
  qed
  from 1 2 show ?thesis by linarith
qed

lemma ulp_pos: "0 < ulp x"
  by (simp add: ulp_def)

lemma fl_zero: "fl 0 = 0"
  by (simp add: fl_def)

text \<open>The relative error of one rounding is at most \<open>2 powi (-53)\<close>.\<close>

lemma fl_error:
  assumes "0 < x"
  shows "\<bar>fl x - x\<bar> \<le> x / 2 ^ 53"
proof -
  let ?u = "ulp x"
  let ?m = "real_of_int (round_half_even (x / ?u))"
  have u: "0 < ?u" by (rule ulp_pos)
  have "\<bar>?m - x / ?u\<bar> \<le> 1 / 2"
    by (rule round_half_even_bound)
  then have "\<bar>?m - x / ?u\<bar> * ?u \<le> 1 / 2 * ?u"
    using u by (intro mult_right_mono) simp_all
  moreover have "\<bar>?m - x / ?u\<bar> * ?u = \<bar>?m * ?u - x\<bar>"
  proof -
    have "(?m - x / ?u) * ?u = ?m * ?u - x"
      using u by (simp add: left_diff_distrib)
    moreover have "\<bar>?m - x / ?u\<bar> * ?u = \<bar>(?m - x / ?u) * ?u\<bar>"
      using u by (simp add: abs_mult)
    ultimately show ?thesis by simp
  qed
  ultimately have 1: "\<bar>fl x - x\<bar> \<le> ?u / 2"
    using assms by (simp add: fl_def)
  have "?u = 2 powi binade x / 2 ^ 52"
    by (simp add: ulp_def power_int_diff)
  also have "\<dots> \<le> x / 2 ^ 52"
    using binade_bounds [OF assms] by (simp add: divide_right_mono)
  finally have "?u / 2 \<le> x / 2 ^ 53" by simp
  with 1 show ?thesis by linarith
qed

text \<open>Evaluation of \<open>fl\<close> once the binade of the argument is known.\<close>

lemma fl_eval:
  assumes "2 powi e \<le> x" and "x < 2 powi (e + 1)"
  shows "fl x = of_int (round_half_even (x / 2 powi (e - 52))) * 2 powi (e - 52)"
proof -
  have "0 < (2::real) powi e" by simp
  with assms(1) have "0 < x" by linarith
  moreover have "binade x = e" by (rule binade_eqI [OF assms])
  ultimately show ?thesis by (simp add: fl_def ulp_def)
qed

text \<open>The quotient of two counts times 100, after its two roundings.\<close>

lemma double_rounding_error:
  fixes v t :: nat
  assumes "v \<le> t" and "0 < t"
  shows "\<bar>fl (fl (real v / real t) * 100) - 100 * real v / real t\<bar> \<le> 300 / 2 ^ 53"
proof (cases "v = 0")
  case True
  then show ?thesis by (simp add: fl_zero)
next
  case False
  define x where "x = real v / real t"
  define q where "q = fl x"
  have x: "0 < x" "x \<le> 1"
    using False assms by (simp_all add: x_def)
  have q: "\<bar>q - x\<bar> \<le> x / 2 ^ 53"
    unfolding q_def by (rule fl_error [OF x(1)])
  have "x / 2 ^ 53 < x" using x(1) by simp
  with q have qpos: "0 < q" by linarith
  from q have qle: "q \<le> x + x / 2 ^ 53" by linarith
  have small: "x / 2 ^ 53 \<le> 1 / 2 ^ 53" using x(2) by (simp add: divide_right_mono)
  with qle x(2) have q2: "q \<le> 2" by simp
  have r: "\<bar>fl (q * 100) - q * 100\<bar> \<le> q * 100 / 2 ^ 53"
    using fl_error [of "q * 100"] qpos by simp
  have "q * 100 / 2 ^ 53 \<le> 200 / 2 ^ 53"
    using q2 by simp
  with r have r': "\<bar>fl (q * 100) - q * 100\<bar> \<le> 200 / 2 ^ 53" by linarith
  from q small have q': "\<bar>q - x\<bar> \<le> 1 / 2 ^ 53" by linarith
  define d1 where "d1 = fl (q * 100) - q * 100"
  define d2 where "d2 = q - x"
  have "fl (q * 100) - 100 * x = d1 + 100 * d2"
    by (simp add: d1_def d2_def)
  moreover have "\<bar>d1 + 100 * d2\<bar> \<le> \<bar>d1\<bar> + \<bar>100 * d2\<bar>"
    by (rule abs_triangle_ineq)
  moreover have "\<bar>100 * d2\<bar> = 100 * \<bar>d2\<bar>"
    by (simp add: abs_mult)
  ultimately have "\<bar>fl (q * 100) - 100 * x\<bar> \<le> \<bar>d1\<bar> + 100 * \<bar>d2\<bar>"
    by linarith
  then have "\<bar>fl (q * 100) - 100 * x\<bar> \<le> \<bar>fl (q * 100) - q * 100\<bar> + 100 * \<bar>q - x\<bar>"
    by (simp only: d1_def d2_def)
  with r' q' have "\<bar>fl (q * 100) - 100 * x\<bar> \<le> 300 / 2 ^ 53" by linarith
  then show ?thesis by (simp add: q_def x_def)
qed

text \<open>
  The number of tenths that \<open>toFixed(1)\<close> prints is a nearest integer to the exact
  \<open>1000 v / t\<close>: the exact value is a multiple of \<open>1 / t\<close>, so unless it lies halfway
  between two integers it keeps a distance of \<open>1 / (2 t)\<close> from every halfway point, which
  is more than the rounding error when \<open>t\<close> is below \<open>2 ^ 32\<close>.
\<close>

lemma tenths_nearest:
  fixes v t :: nat
  assumes "v \<le> t" and "0 < t" and "t < 2 ^ 32"
  defines "r \<equiv> fl (fl (real v / real t) * 100)"
  shows "\<bar>of_int \<lfloor>10 * r + 1 / 2\<rfloor> - 1000 * real v / real t\<bar> \<le> 1 / 2"
proof -
  define n where "n = \<lfloor>10 * r + 1 / 2\<rfloor>"
  define y where "y = 1000 * real v / real t"
  have "real t < real (2 ^ 32)"
    using assms(3) by (simp only: of_nat_less_iff)
  then have t: "0 < real t" "real t < 2 ^ 32"
    using assms(2) by simp_all
  have err: "\<bar>10 * r - y\<bar> \<le> 3000 / 2 ^ 53"
  proof -
    define d where "d = r - 100 * real v / real t"
    have d: "\<bar>d\<bar> \<le> 300 / 2 ^ 53"
      unfolding d_def r_def by (rule double_rounding_error [OF assms(1,2)])
    have "10 * r - y = 10 * d"
      by (simp add: d_def y_def)
    moreover have "\<bar>10 * d\<bar> = 10 * \<bar>d\<bar>"
      by (simp add: abs_mult)
    ultimately show ?thesis using d by linarith
  qed
  have n1: "of_int n \<le> 10 * r + 1 / 2" and n2: "10 * r + 1 / 2 < of_int n + 1"
    unfolding n_def by linarith+
  have yt: "y * real t = 1000 * real v"
    using t(1) by (simp add: y_def)
  have gap: "1 / (2 * real t) > 3000 / 2 ^ 53"
  proof -
    have "3000 * (2 * real t) < 3000 * (2 * 2 ^ 32)" using t(2) by simp
    also have "\<dots> < (2::real) ^ 53" by simp
    finally have "3000 * (2 * real t) < 2 ^ 53" .
    then show ?thesis using t(1) by (simp add: field_simps)
  qed
  have up: "y \<le> of_int n + 1 / 2"
  proof (rule ccontr)
    assume "\<not> y \<le> of_int n + 1 / 2"
    then have gt: "of_int n + 1 / 2 < y" by simp
    then have "(of_int n + 1 / 2) * (2 * real t) < y * (2 * real t)"
      using t(1) by (intro mult_strict_right_mono) simp_all
    then have "real_of_int ((2 * n + 1) * int t) < real_of_int (2000 * int v)"
      using yt by (simp add: algebra_simps)
    then have "(2 * n + 1) * int t < 2000 * int v"
      by (simp only: of_int_less_iff)
    then have "(2 * n + 1) * int t + 1 \<le> 2000 * int v" by simp
    then have "real_of_int ((2 * n + 1) * int t + 1) \<le> real_of_int (2000 * int v)"
      by (simp only: of_int_le_iff)
    then have "(of_int n + 1 / 2) * (2 * real t) + 1 \<le> y * (2 * real t)"
      using yt by (simp add: algebra_simps)
    then have "of_int n + 1 / 2 + 1 / (2 * real t) \<le> y"
      using t(1) by (simp add: field_simps)
    with gap err n2 show False by linarith
  qed
  have lo: "of_int n - 1 / 2 \<le> y"
  proof (rule ccontr)
    assume "\<not> of_int n - 1 / 2 \<le> y"
    then have lt: "y < of_int n - 1 / 2" by simp
    then have "y * (2 * real t) < (of_int n - 1 / 2) * (2 * real t)"
      using t(1) by (intro mult_strict_right_mono) simp_all
    then have "real_of_int (2000 * int v) < real_of_int ((2 * n - 1) * int t)"
      using yt by (simp add: algebra_simps)
    then have "2000 * int v < (2 * n - 1) * int t"
      by (simp only: of_int_less_iff)
    then have "2000 * int v + 1 \<le> (2 * n - 1) * int t" by simp
    then have "real_of_int (2000 * int v + 1) \<le> real_of_int ((2 * n - 1) * int t)"
      by (simp only: of_int_le_iff)
    then have "y * (2 * real t) + 1 \<le> (of_int n - 1 / 2) * (2 * real t)"
      using yt by (simp add: algebra_simps)
    then have "y + 1 / (2 * real t) \<le> of_int n - 1 / 2"
      using t(1) by (simp add: field_simps)
    with gap err n1 show False by linarith
  qed
  from up lo show ?thesis unfolding n_def [symmetric] y_def [symmetric] by linarith
qed

lemma aiAccuracyRate_counts:
  "aiAccuracyRate xs =
     (if count_status ''Validated'' xs + count_status ''Corrected'' xs = 0 then 0
      else fl (of_int \<lfloor>10 * fl (fl (real (count_status ''Validated'' xs)
                 / real (count_status ''Validated'' xs + count_status ''Corrected'' xs)) * 100)
               + 1 / 2\<rfloor> / 10))"
  by (simp add: aiAccuracyRate_def Let_def js_times_def js_divide_def toFixed1_def
      parseFloat1_def count_status_def)

lemma rated_scans_counts:
  "count_status ''Validated'' (rated_scans v c p) = v"
  "count_status ''Corrected'' (rated_scans v c p) = c"
  by (simp_all add: rated_scans_def example_scan_def count_status_def)

lemma disjoint_counts:
  "(\<And>x. \<not> (P x \<and> Q x)) \<Longrightarrow> length (filter P xs) + length (filter Q xs) \<le> length xs"
  by (induction xs) auto

lemma counts_le_length:
  "count_status ''Validated'' xs + count_status ''Corrected'' xs \<le> length xs"
  unfolding count_status_def by (rule disjoint_counts) auto

lemma count_status_not_pending:
  "x \<noteq> ''Pending Validation''
   \<Longrightarrow> count_status x (filter (\<lambda>s. status s \<noteq> ''Pending Validation'') xs) = count_status x xs"
  by (induction xs) (auto simp: count_status_def)

lemma aiAccuracyRate_not_pending:
  "aiAccuracyRate (filter (\<lambda>s. status s \<noteq> ''Pending Validation'') xs) = aiAccuracyRate xs"
proof -
  have "count_status ''Validated'' (filter (\<lambda>s. status s \<noteq> ''Pending Validation'') xs)
        = count_status ''Validated'' xs"
    "count_status ''Corrected'' (filter (\<lambda>s. status s \<noteq> ''Pending Validation'') xs)
        = count_status ''Corrected'' xs"
    by (simp_all add: count_status_not_pending)
  then show ?thesis
    by (simp only: aiAccuracyRate_counts)
qed

subsection \<open>The accuracy rate\<close>

text \<open>
  Claim C7, as amended.  For a list of fewer than \<open>2 ^ 32\<close> scans (the bound of a
  JavaScript array), with \<open>V\<close> scans of status \<open>Validated\<close> and \<open>C\<close> of status \<open>Corrected\<close>:
  the rate is 0 when \<open>V + C = 0\<close>; otherwise it is the number written \<open>d / 10\<close> for an
  integer \<open>d\<close> such that \<open>d / 10\<close> is at most \<open>1 / 20\<close> away from \<open>100 V / (V + C)\<close>, that
  is, for a nearest multiple of one tenth, without a rule for the quotients that lie
  halfway between two of them.  Two lists with the same scans outside the status
  \<open>Pending Validation\<close>, in the same order, have the same rate.
\<close>

theorem aiAccuracyRate_nearest_tenth:
  assumes "length filteredScans < 2 ^ 32"
  shows "(count_status ''Validated'' filteredScans + count_status ''Corrected'' filteredScans = 0
            \<longrightarrow> aiAccuracyRate filteredScans = 0)
    \<and> (0 < count_status ''Validated'' filteredScans + count_status ''Corrected'' filteredScans
         \<longrightarrow> (\<exists>d. aiAccuracyRate filteredScans = fl (of_int d / 10)
                \<and> \<bar>of_int d / 10
                    - 100 * real (count_status ''Validated'' filteredScans)
                      / real (count_status ''Validated'' filteredScans
                              + count_status ''Corrected'' filteredScans)\<bar> \<le> 1 / 20))
    \<and> (filter (\<lambda>s. status s \<noteq> ''Pending Validation'') others
         = filter (\<lambda>s. status s \<noteq> ''Pending Validation'') filteredScans
         \<longrightarrow> aiAccuracyRate others = aiAccuracyRate filteredScans)"
proof -
  define v where "v = count_status ''Validated'' filteredScans"
  define c where "c = count_status ''Corrected'' filteredScans"
  define d where "d = \<lfloor>10 * fl (fl (real v / real (v + c)) * 100) + 1 / 2\<rfloor>"
  have rate: "aiAccuracyRate filteredScans = (if v + c = 0 then 0 else fl (of_int d / 10))"
    unfolding v_def c_def d_def by (rule aiAccuracyRate_counts)
  have zero: "v + c = 0 \<longrightarrow> aiAccuracyRate filteredScans = 0"
    by (simp add: rate)
  have near: "0 < v + c \<longrightarrow> (\<exists>d. aiAccuracyRate filteredScans = fl (of_int d / 10)
                \<and> \<bar>of_int d / 10 - 100 * real v / real (v + c)\<bar> \<le> 1 / 20)"
  proof
    assume pos: "0 < v + c"
    have "v + c \<le> length filteredScans"
      unfolding v_def c_def by (rule counts_le_length)
    with assms have lt: "v + c < 2 ^ 32" by simp
    have "v \<le> v + c" by simp
    from tenths_nearest [OF this pos lt]
    have "\<bar>of_int d - 1000 * real v / real (v + c)\<bar> \<le> 1 / 2"
      by (simp only: d_def)
    moreover define e where "e = of_int d / 10 - 100 * real v / real (v + c)"
    moreover have "of_int d - 1000 * real v / real (v + c) = 10 * e"
      by (simp add: e_def)
    moreover have "\<bar>10 * e\<bar> = 10 * \<bar>e\<bar>"
      by (simp add: abs_mult)
    ultimately have "\<bar>e\<bar> \<le> 1 / 20"
      by linarith
    then have "\<bar>of_int d / 10 - 100 * real v / real (v + c)\<bar> \<le> 1 / 20"
      by (simp only: e_def)
    moreover from pos have "aiAccuracyRate filteredScans = fl (of_int d / 10)"
      by (auto simp: rate)
    ultimately show "\<exists>d. aiAccuracyRate filteredScans = fl (of_int d / 10)
                \<and> \<bar>of_int d / 10 - 100 * real v / real (v + c)\<bar> \<le> 1 / 20"
      by blast
  qed
  have pend: "filter (\<lambda>s. status s \<noteq> ''Pending Validation'') others
         = filter (\<lambda>s. status s \<noteq> ''Pending Validation'') filteredScans
         \<longrightarrow> aiAccuracyRate others = aiAccuracyRate filteredScans"
    using aiAccuracyRate_not_pending [of others] aiAccuracyRate_not_pending [of filteredScans]
    by auto
  from zero near pend show ?thesis
    unfolding v_def c_def by blast
qed

lemma rate_eval:
  assumes "0 < v + c"
    and "fl (real v / real (v + c)) = q" and "fl (q * 100) = r"
    and "\<lfloor>10 * r + 1 / 2\<rfloor> = d"
  shows "aiAccuracyRate (rated_scans v c p) = fl (of_int d / 10)"
  using assms by (auto simp: aiAccuracyRate_counts rated_scans_counts)

text \<open>
  Two validated scans, one corrected scan and a pending one: the quotient \<open>2 / 3\<close> is
  rounded to a double, its product with 100 again, \<open>toFixed(1)\<close> prints \<open>66.7\<close>, and the
  rate is the double of that text.
\<close>

theorem aiAccuracyRate_nearest_tenth_witness:
  "length (rated_scans 2 1 1) < 2 ^ 32
   \<and> 0 < count_status ''Validated'' (rated_scans 2 1 1)
         + count_status ''Corrected'' (rated_scans 2 1 1)
   \<and> (\<exists>d. aiAccuracyRate (rated_scans 2 1 1) = fl (of_int d / 10)
          \<and> \<bar>real_of_int d / 10 - 100 * 2 / 3\<bar> \<le> 1 / 20)
   \<and> aiAccuracyRate (rated_scans 2 1 1) = fl (667 / 10)
   \<and> fl (667 / 10) = 4693595236650189 / 2 ^ 46
   \<and> aiAccuracyRate (rated_scans 2 1 0) = aiAccuracyRate (rated_scans 2 1 1)
   \<and> aiAccuracyRate (rated_scans 0 0 3) = 0"
proof -
  have len: "length (rated_scans 2 1 1) < 2 ^ 32" "length (rated_scans 0 0 3) < 2 ^ 32"
    by (simp_all add: rated_scans_def)
  have same: "filter (\<lambda>s. status s \<noteq> ''Pending Validation'') (rated_scans 2 1 0)
         = filter (\<lambda>s. status s \<noteq> ''Pending Validation'') (rated_scans 2 1 1)"
    by (simp add: rated_scans_def example_scan_def)
  have q: "fl (real 2 / real (2 + 1)) = 6004799503160661 / 2 ^ 53"
    using fl_eval [of "-1" "2 / 3"]
    by (simp add: round_half_even_def power_int_minus_divide)
  have r: "fl (6004799503160661 / 2 ^ 53 * 100) = 4691249611844266 / 2 ^ 46"
    using fl_eval [of 6 "6004799503160661 / 2 ^ 53 * 100"]
    by (simp add: round_half_even_def power_int_minus_divide)
  have d: "\<lfloor>10 * (4691249611844266 / 2 ^ 46) + 1 / 2 :: real\<rfloor> = 667"
    by simp
  have val: "aiAccuracyRate (rated_scans 2 1 1) = fl (667 / 10)"
    using rate_eval [OF _ q r d, of 1] by simp
  have dbl: "fl (667 / 10) = 4693595236650189 / 2 ^ 46"
    using fl_eval [of 6 "667 / 10"]
    by (simp add: round_half_even_def power_int_minus_divide)
  from aiAccuracyRate_nearest_tenth [OF len(1), of "rated_scans 2 1 0"] same
  have a: "(\<exists>d. aiAccuracyRate (rated_scans 2 1 1) = fl (of_int d / 10)
          \<and> \<bar>real_of_int d / 10 - 100 * 2 / 3\<bar> \<le> 1 / 20)
     \<and> aiAccuracyRate (rated_scans 2 1 0) = aiAccuracyRate (rated_scans 2 1 1)"
    by (simp add: rated_scans_counts)
  from aiAccuracyRate_nearest_tenth [OF len(2), of "[]"]
  have b: "aiAccuracyRate (rated_scans 0 0 3) = 0"
    by (simp add: rated_scans_counts)
  from len(1) a b val dbl show ?thesis by (simp add: rated_scans_counts)
qed

text \<open>
  Against the claim as written: 23 validated and 57 corrected scans.  The exact rate is
  \<open>28.75\<close>, which rounds to \<open>28.8\<close>; the rounded product is just below \<open>28.75\<close> and the
  page reports \<open>28.7\<close>.  With 11 validated and 69 corrected scans the exact rate \<open>13.75\<close> is
  reported as \<open>13.8\<close>, so the halves go neither always up nor always down.
\<close>

theorem halfway_rate_rounds_down:
  "100 * real 23 / real (23 + 57) = 115 / 4
   \<and> rounded_to_one_decimal (115 / 4) = fl (288 / 10)
   \<and> aiAccuracyRate (rated_scans 23 57 0) = fl (287 / 10)
   \<and> fl (287 / 10) < fl (288 / 10)
   \<and> 100 * real 11 / real (11 + 69) = 55 / 4
   \<and> aiAccuracyRate (rated_scans 11 69 0) = fl (138 / 10)"
proof -
  have q1: "fl (real 23 / real (23 + 57)) = 5179139571476070 / 2 ^ 54"
    using fl_eval [of "-2" "23 / 80"]
    by (simp add: round_half_even_def power_int_minus_divide)
  have r1: "fl (5179139571476070 / 2 ^ 54 * 100) = 8092405580431359 / 2 ^ 48"
    using fl_eval [of 4 "5179139571476070 / 2 ^ 54 * 100"]
    by (simp add: round_half_even_def power_int_minus_divide)
  have d1: "\<lfloor>10 * (8092405580431359 / 2 ^ 48) + 1 / 2 :: real\<rfloor> = 287"
    by simp
  have v1: "aiAccuracyRate (rated_scans 23 57 0) = fl (287 / 10)"
    using rate_eval [OF _ q1 r1 d1, of 0] by simp
  have q2: "fl (real 11 / real (11 + 69)) = 4953959590107546 / 2 ^ 55"
    using fl_eval [of "-3" "11 / 80"]
    by (simp add: round_half_even_def power_int_minus_divide)
  have r2: "fl (4953959590107546 / 2 ^ 55 * 100) = 7740561859543041 / 2 ^ 49"
    using fl_eval [of 3 "4953959590107546 / 2 ^ 55 * 100"]
    by (simp add: round_half_even_def power_int_minus_divide)
  have d2: "\<lfloor>10 * (7740561859543041 / 2 ^ 49) + 1 / 2 :: real\<rfloor> = 138"
    by simp
  have v2: "aiAccuracyRate (rated_scans 11 69 0) = fl (138 / 10)"
    using rate_eval [OF _ q2 r2 d2, of 0] by simp
  have f287: "fl (287 / 10) = 8078331831595827 / 2 ^ 48"
    using fl_eval [of 4 "287 / 10"]
    by (simp add: round_half_even_def power_int_minus_divide)
  have f288: "fl (288 / 10) = 8106479329266893 / 2 ^ 48"
    using fl_eval [of 4 "288 / 10"]
    by (simp add: round_half_even_def power_int_minus_divide)
  have lt: "fl (287 / 10) < fl (288 / 10)"
    unfolding f287 f288 by simp
  have rd: "rounded_to_one_decimal (115 / 4) = fl (288 / 10)"
    by (simp add: rounded_to_one_decimal_def)
  from v1 v2 lt rd show ?thesis by simp
qed

end
